theory Spec2Isabelle
  imports Main
begin

section \<open>Python values, dictionaries and exceptions\<close>

text \<open>
  The scrapers keep every listing in a Python \<^verbatim>\<open>dict\<close> from column names to values.
  The values that occur are \<^verbatim>\<open>None\<close>, strings and (in the older variant) the integer
  card index. A dictionary is a map from keys to values; a key that is absent maps to
  \<open>None\<close> of HOL's option type, which is different from the Python value \<^verbatim>\<open>None\<close>
  (\<open>NoneV\<close>) stored under a key.
\<close>

datatype val = NoneV | Str string | Num int

type_synonym dict = "string \<rightharpoonup> val"

text \<open>Python truthiness of a value (\<^verbatim>\<open>if html:\<close>, \<^verbatim>\<open>if details['url']:\<close>).\<close>

definition truthy :: "val \<Rightarrow> bool" where
  "truthy v = (case v of NoneV \<Rightarrow> False | Str s \<Rightarrow> s \<noteq> [] | Num i \<Rightarrow> i \<noteq> 0)"

text \<open>The exceptions that the modelled code can meet.\<close>

datatype exn =
    RequestException
  | HTTPError
  | JSONDecodeError
  | KeyError string
  | TypeError
  | AttributeError
  | ValueError

section \<open>The rendering backend\<close>

text \<open>
  \<^verbatim>\<open>requests.post\<close> either raises (connection error, timeout) or returns a response with
  a status code and a body. The body is not JSON, or JSON that is not an object, or a
  JSON object; of an object only the fields \<^verbatim>\<open>status\<close> and \<^verbatim>\<open>html_content\<close> are read.
  The backend is a function from the number of calls made so far and the requested URL
  to the reply of the next call, so that "fails twice, then succeeds" is a backend.
\<close>

datatype body = Not_json | Json_other | Json_object dict

datatype reply = Transport_error | Http nat body

type_synonym backend = "nat \<Rightarrow> string \<Rightarrow> reply"

text \<open>
  The body of the \<^verbatim>\<open>try\<close> block of one attempt (the same in all three variants):
  \<^verbatim>\<open>
    response = requests.post(NIMBLE_API_URL, headers=headers, json=payload, timeout=timeout)
    response.raise_for_status()
    result = response.json()
    if result["status"] == "success":
        return result["html_content"]
    print(...)
    return None
  \<close>
  \<^verbatim>\<open>raise_for_status\<close> raises for the status codes 400 to 599. \<open>Inl\<close> is an exception
  raised inside the block, \<open>Inr\<close> is what the block makes the function return.
\<close>

definition attempt :: "reply \<Rightarrow> exn + val" where
  "attempt r =
     (case r of
        Transport_error \<Rightarrow> Inl RequestException
      | Http code b \<Rightarrow>
          if 400 \<le> code \<and> code < 600 then Inl HTTPError
          else (case b of
                  Not_json \<Rightarrow> Inl JSONDecodeError
                | Json_other \<Rightarrow> Inl TypeError
                | Json_object result \<Rightarrow>
                    (case result ''status'' of
                       None \<Rightarrow> Inl (KeyError ''status'')
                     | Some st \<Rightarrow>
                         if st = Str ''success''
                         then (case result ''html_content'' of
                                 None \<Rightarrow> Inl (KeyError ''html_content'')
                               | Some h \<Rightarrow> Inr h)
                         else Inr NoneV)))"

text \<open>
  \<^verbatim>\<open>nimble_request\<close> of \<^verbatim>\<open>scrape_zillow.py\<close> (and of the Selenium variant, which is
  the same text):
  \<^verbatim>\<open>
    for attempt in range(retries):
        try:
            ... the block above ...
        except Exception as e:
            print(...)
            if attempt < retries - 1:
                time.sleep(random.uniform(3, 5))
            continue
    print(f"Failed to fetch {url} after {retries} attempts")
    return None
  \<close>
  The second argument counts the network calls made so far, the last one the attempts
  that are left. The result is the returned value and the new call count. Printing and
  sleeping are not modelled.
\<close>

fun nimble_request :: "backend \<Rightarrow> string \<Rightarrow> nat \<Rightarrow> nat \<Rightarrow> val \<times> nat" where
  "nimble_request b url n 0 = (NoneV, n)"
| "nimble_request b url n (Suc k) =
     (case attempt (b n url) of
        Inr v \<Rightarrow> (v, Suc n)
      | Inl e \<Rightarrow> nimble_request b url (Suc n) k)"

text \<open>
  \<^verbatim>\<open>nimble_request\<close> of \<^verbatim>\<open>scrape_zillow_old.py\<close>: only \<^verbatim>\<open>requests.RequestException\<close>
  is caught (with \<^verbatim>\<open>requests\<close> 2.27 or later that includes its \<^verbatim>\<open>JSONDecodeError\<close>), and
  the \<^verbatim>\<open>return None, None\<close> that ends the loop body is reached after a response whose
  status is not "success" and after an exception in the last attempt.
  \<^verbatim>\<open>
    for attempt in range(retries):
        try:
            ...
            if result["status"] == "success":
                return result["html_content"], result.get("render_flow")
            else:
                logger.error(...)
        except requests.RequestException as e:
            logger.error(...)
            if attempt < retries - 1:
                time.sleep(backoff * (attempt + 1))
                continue
        return None, None
    logger.error(...)
    return None, None
  \<close>
  Only the first component of the returned pair is modelled; no caller reads the other.
\<close>

definition is_RequestException :: "exn \<Rightarrow> bool" where
  "is_RequestException e = (e = RequestException \<or> e = HTTPError \<or> e = JSONDecodeError)"

fun nimble_request_old :: "backend \<Rightarrow> string \<Rightarrow> nat \<Rightarrow> nat \<Rightarrow> exn + val \<times> nat" where
  "nimble_request_old b url n 0 = Inr (NoneV, n)"
| "nimble_request_old b url n (Suc k) =
     (case attempt (b n url) of
        Inr v \<Rightarrow> Inr (v, Suc n)
      | Inl e \<Rightarrow>
          if is_RequestException e
          then (if 0 < k then nimble_request_old b url (Suc n) k else Inr (NoneV, Suc n))
          else Inl e)"

section \<open>String built-ins\<close>

text \<open>
  The string methods the scrapers call that only compare characters, on strings as lists
  of characters: \<^verbatim>\<open>s.startswith(p)\<close>, \<^verbatim>\<open>sub in s\<close> and \<^verbatim>\<open>s.replace(old, new)\<close>.
\<close>

definition startswith :: "string \<Rightarrow> string \<Rightarrow> bool" where
  "startswith s p = (take (length p) s = p)"

fun str_contains :: "string \<Rightarrow> string \<Rightarrow> bool" where
  "str_contains [] sub = (sub = [])"
| "str_contains (c # cs) sub = (startswith (c # cs) sub \<or> str_contains cs sub)"

function str_replace :: "string \<Rightarrow> string \<Rightarrow> string \<Rightarrow> string" where
  "str_replace s old new =
     (if old = [] then new @ concat (map (\<lambda>c. c # new) s)
      else if s = [] then []
      else if startswith s old then new @ str_replace (drop (length old) s) old new
      else hd s # str_replace (tl s) old new)"
  by pat_completeness auto
termination
  by (relation "measure (\<lambda>(s, old, new). length s)") auto

declare str_replace.simps [simp del]

text \<open>
  \<^verbatim>\<open>s.strip()\<close> and \<^verbatim>\<open>s.lower()\<close> depend on the Unicode tables of the interpreter
  (\<^verbatim>\<open>strip\<close> removes every character that \<^verbatim>\<open>str.isspace\<close> accepts, the no-break space
  among them; \<^verbatim>\<open>lower\<close> maps letters of every script). They are parameters, as the
  libraries are.
\<close>

record builtins =
  strip :: "string \<Rightarrow> string"
  lower :: "string \<Rightarrow> string"

section \<open>The libraries: parsed HTML, regular expressions, URL parsing\<close>

text \<open>
  BeautifulSoup, \<^verbatim>\<open>re\<close> and \<^verbatim>\<open>urllib.parse\<close> are not code of this repository. A parsed
  document is modelled by what the scrapers read off it, and the three libraries are
  parameters of every function that calls them.

  An anchor is the result of \<^verbatim>\<open>card.find('a', {'data-test': 'property-card-link'})\<close>,
  with its attributes. A card is an element that \<^verbatim>\<open>soup.select\<close> returned on the
  search page: its attributes, that anchor if there is one, for every selector the
  \<^verbatim>\<open>.text\<close> of the element that \<^verbatim>\<open>card.select_one(selector)\<close> returns if it
  returns one, and \<^verbatim>\<open>card.get_text()\<close>. A BeautifulSoup \<^verbatim>\<open>Tag\<close> is always truthy
  (its \<^verbatim>\<open>__bool__\<close> returns \<^verbatim>\<open>True\<close>), so \<^verbatim>\<open>if elem:\<close> tests that an element was found.
\<close>

record anchor =
  attrs :: "string \<rightharpoonup> string"

record card =
  card_attrs :: "string \<rightharpoonup> string"
  find_link :: "anchor option"
  card_select_one :: "string \<Rightarrow> string option"
  card_get_text :: string

text \<open>
  A parsed page: the cards that \<^verbatim>\<open>soup.select('article[data-test="property-card"]')\<close>
  returns; for every selector the \<^verbatim>\<open>.text\<close> of the element \<^verbatim>\<open>soup.select_one\<close>
  returns, if any; for every selector and every element that \<^verbatim>\<open>soup.select\<close> returns,
  the \<^verbatim>\<open>.text\<close> of each of its \<^verbatim>\<open>find_all(['span', 'li', 'div'])\<close>; and
  \<^verbatim>\<open>soup.get_text()\<close>.
\<close>

record soup =
  select_cards :: "card list"
  select_one :: "string \<Rightarrow> string option"
  select_items :: "string \<Rightarrow> string list list"
  get_text :: string

text \<open>
  The regular expressions of \<^verbatim>\<open>scrape_zillow.py\<close>, by name: the street address on a
  card (line 87), the bedroom, bathroom and square-feet counts (lines 134 to 155) and the
  \<^verbatim>\<open>/homedetails/(.+?)/\d+_zpid\<close> path (line 166). A match gives \<^verbatim>\<open>group(0)\<close> and
  \<^verbatim>\<open>group(1)\<close>.
\<close>

datatype regex = Address_re | Bed_re | Bath_re | Sqft_re | Homedetails_re

record rmatch =
  group0 :: string
  group1 :: string

text \<open>
  \<^verbatim>\<open>urllib.parse.urlparse(url).path\<close> is the path of the URL, or \<open>None\<close> when
  \<^verbatim>\<open>urlparse\<close> raises \<^verbatim>\<open>ValueError\<close> (as it does on \<^verbatim>\<open>http://[x\<close>).
\<close>

record lib = builtins +
  BeautifulSoup :: "string \<Rightarrow> soup"
  re_search :: "regex \<Rightarrow> string \<Rightarrow> rmatch option"
  urlparse_path :: "string \<Rightarrow> string option"

section \<open>Field extraction\<close>

text \<open>
  The loop that both extractors use for a field with several selectors:
  \<^verbatim>\<open>
    address = 'Unknown'
    for selector in address_selectors:
        address_elem = card.select_one(selector)
        if address_elem:
            address = address_elem.text.strip()
            break
  \<close>
\<close>

fun first_match :: "lib \<Rightarrow> (string \<Rightarrow> string option) \<Rightarrow> string list \<Rightarrow> string \<Rightarrow> string" where
  "first_match L sel [] dflt = dflt"
| "first_match L sel (s # ss) dflt =
     (case sel s of
        Some t \<Rightarrow> strip L t
      | None \<Rightarrow> first_match L sel ss dflt)"

definition address_selectors :: "string list" where
  \<open>address_selectors =
     [''address[data-test="property-card-addr"]'',
      ''div[data-test="property-card-addr"]'',
      ''span[data-test="property-card-addr"]'',
      ''address[class*="address"]'',
      ''div[class*="StyledPropertyCardDataArea"]'',
      ''span[class*="address"]'',
      ''div[class*="PropertyCard"]'',
      ''div[class*="card-info"]'']\<close>

text \<open>
  Line 66 of \<^verbatim>\<open>extract_property_details\<close>:
  \<^verbatim>\<open>
    url = f"https://www.zillow.com{link['href']}"
          if link and 'href' in link.attrs and not link['href'].startswith('http')
          else link['href'] if link else None
  \<close>
  The conditional expression nests to the right. With an anchor that has no \<^verbatim>\<open>href\<close>
  the first condition is false, the second (\<^verbatim>\<open>link\<close>) is true, and \<^verbatim>\<open>link['href']\<close>
  raises \<^verbatim>\<open>KeyError\<close>.
\<close>

definition card_url :: "card \<Rightarrow> exn + val" where
  "card_url crd =
     (case find_link crd of
        None \<Rightarrow> Inr NoneV
      | Some link \<Rightarrow>
          (case attrs link ''href'' of
             None \<Rightarrow> Inl (KeyError ''href'')
           | Some href \<Rightarrow>
               if \<not> startswith href ''http''
               then Inr (Str (''https://www.zillow.com'' @ href))
               else Inr (Str href)))"

text \<open>
  \<^verbatim>\<open>extract_property_details(card)\<close>: the identifier from the card's \<^verbatim>\<open>id\<close>, the URL,
  the address by selectors and then, while it is still \<^verbatim>\<open>'Unknown'\<close>, by the regular
  expression on the card's text; it returns
  \<^verbatim>\<open>{'zpid': zpid, 'url': url, 'address': address}\<close>.
\<close>

definition extract_property_details :: "lib \<Rightarrow> card \<Rightarrow> exn + dict" where
  "extract_property_details L crd =
     (let zpid = str_replace
                   (str_replace (case card_attrs crd ''id'' of None \<Rightarrow> [] | Some v \<Rightarrow> v)
                      ''zpid_'' [])
                   ''property-card-'' []
      in case card_url crd of
           Inl e \<Rightarrow> Inl e
         | Inr url \<Rightarrow>
             let address = first_match L (card_select_one crd) address_selectors ''Unknown'';
                 address =
                   (if address = ''Unknown''
                    then (case re_search L Address_re (strip L (card_get_text crd)) of
                            Some m \<Rightarrow> group0 m
                          | None \<Rightarrow> address)
                    else address)
             in Inr [''zpid'' \<mapsto> Str zpid, ''url'' \<mapsto> url, ''address'' \<mapsto> Str address])"

section \<open>The detail page\<close>

definition price_selectors :: "string list" where
  \<open>price_selectors =
     [''span[data-testid="price"]'',
      ''div[data-testid="price"]'',
      ''span[class*="price"]'',
      ''div[class*="price"]'',
      ''h4[class*="price"]'',
      ''span[class*="Price"]'',
      ''div[class*="PriceDetails"]'']\<close>

definition facts_selectors :: "string list" where
  \<open>facts_selectors =
     [''div[data-testid="facts-and-features"]'',
      ''ul[class*="facts-features"]'',
      ''div[class*="home-facts"]'',
      ''div[class*="facts"]'',
      ''div[class*="FactGroup"]'']\<close>

text \<open>
  \<^verbatim>\<open>m = re.search(pattern, text)\<close> followed by \<^verbatim>\<open>if m: details[key] = m.group(1)\<close>:
  the new value of the field whose value was \<open>cur\<close>.
\<close>

definition group1_or :: "lib \<Rightarrow> regex \<Rightarrow> string \<Rightarrow> string \<Rightarrow> string" where
  "group1_or L re text cur = (case re_search L re text of Some m \<Rightarrow> group1 m | None \<Rightarrow> cur)"

text \<open>
  Lines 128 to 155: bedrooms, bathrooms and square feet from the summary element, then,
  if one of the three is still \<^verbatim>\<open>'Unknown'\<close>, all three again from the text of the whole
  page (a match there replaces a value found before).
\<close>

definition bed_bath_sqft :: "lib \<Rightarrow> soup \<Rightarrow> string \<times> string \<times> string" where
  \<open>bed_bath_sqft L sp =
     (let (bed, bath, sqft) =
            (case select_one sp ''div[data-testid="bed-bath-beyond"]'' of
               None \<Rightarrow> (''Unknown'', ''Unknown'', ''Unknown'')
             | Some t \<Rightarrow>
                 let summary_text = lower L t
                 in (group1_or L Bed_re summary_text ''Unknown'',
                     group1_or L Bath_re summary_text ''Unknown'',
                     group1_or L Sqft_re summary_text ''Unknown''))
      in if bed = ''Unknown'' \<or> bath = ''Unknown'' \<or> sqft = ''Unknown''
         then let all_text = lower L (get_text sp)
              in (group1_or L Bed_re all_text bed,
                  group1_or L Bath_re all_text bath,
                  group1_or L Sqft_re all_text sqft)
         else (bed, bath, sqft))\<close>

text \<open>
  Lines 158 to 169: the address of the detail page, from the first of three selectors
  that finds an element, else from the path of the URL; \<^verbatim>\<open>urlparse\<close> is called only in
  that case, and its \<^verbatim>\<open>ValueError\<close> leaves \<^verbatim>\<open>extract_apartment_details\<close>.
\<close>

definition detail_address :: "lib \<Rightarrow> soup \<Rightarrow> string \<Rightarrow> exn + string" where
  \<open>detail_address L sp url =
     (let address_elem =
            (case select_one sp ''h1[data-testid="home-details-address"]'' of
               Some t \<Rightarrow> Some t
             | None \<Rightarrow>
                 (case select_one sp ''h1[class*="address"]'' of
                    Some t \<Rightarrow> Some t
                  | None \<Rightarrow> select_one sp ''div[class*="address"]''))
      in case address_elem of
           Some t \<Rightarrow> Inr (strip L t)
         | None \<Rightarrow>
             (case urlparse_path L url of
                None \<Rightarrow> Inl ValueError
              | Some path \<Rightarrow>
                  (case re_search L Homedetails_re path of
                     Some m \<Rightarrow> Inr (str_replace (group1 m) ''-'' '' '')
                   | None \<Rightarrow> Inr ''Unknown'')))\<close>

text \<open>Lines 179 to 201: the five amenities, their defaults and the loops over the facts.\<close>

record facts =
  pets_allowed :: string
  laundry :: string
  parking :: string
  cooling :: string
  heating :: string

definition facts_default :: facts where
  "facts_default =
     \<lparr>pets_allowed = ''No'', laundry = ''None'', parking = ''None'', cooling = ''None'',
      heating = ''None''\<rparr>"

definition fact_item :: "lib \<Rightarrow> string \<Rightarrow> facts \<Rightarrow> facts" where
  "fact_item L item f =
     (let text = lower L item
      in if str_contains text ''cats'' \<or> str_contains text ''dogs'' \<or> str_contains text ''no pets''
         then f\<lparr>pets_allowed := strip L text\<rparr>
         else if str_contains text ''laundry'' \<or> str_contains text ''washer''
                 \<or> str_contains text ''dryer''
         then f\<lparr>laundry := strip L text\<rparr>
         else if str_contains text ''parking'' \<or> str_contains text ''garage''
         then f\<lparr>parking := strip L text\<rparr>
         else if str_contains text ''air conditioning'' \<or> str_contains text ''central air''
         then f\<lparr>cooling := strip L text\<rparr>
         else if str_contains text ''heating'' \<or> str_contains text ''forced air''
         then f\<lparr>heating := strip L text\<rparr>
         else f)"

definition all_facts_found :: "facts \<Rightarrow> bool" where
  "all_facts_found f =
     (pets_allowed f \<noteq> ''None'' \<and> laundry f \<noteq> ''None'' \<and> parking f \<noteq> ''None''
      \<and> cooling f \<noteq> ''None'' \<and> heating f \<noteq> ''None'')"

fun facts_loop :: "lib \<Rightarrow> (string \<Rightarrow> string list list) \<Rightarrow> string list \<Rightarrow> facts \<Rightarrow> facts" where
  "facts_loop L sel [] f = f"
| "facts_loop L sel (s # ss) f =
     (let f' = fold (\<lambda>fact_group. fold (fact_item L) fact_group) (sel s) f
      in if all_facts_found f' then f' else facts_loop L sel ss f')"

text \<open>
  Lines 107 to 203: the dictionary that \<^verbatim>\<open>extract_apartment_details\<close> builds from a
  page, in the order of the source: price, rooms and area, address (which can raise),
  amenities.
\<close>

definition apartment_details :: "lib \<Rightarrow> soup \<Rightarrow> string \<Rightarrow> exn + dict" where
  "apartment_details L sp url =
     (let price = first_match L (select_one sp) price_selectors ''Unknown'';
          (bed, bath, sqft) = bed_bath_sqft L sp
      in case detail_address L sp url of
           Inl e \<Rightarrow> Inl e
         | Inr address \<Rightarrow>
             let f = facts_loop L (select_items sp) facts_selectors facts_default
             in Inr [''price'' \<mapsto> Str price,
                     ''bedrooms'' \<mapsto> Str bed,
                     ''bathrooms'' \<mapsto> Str bath,
                     ''sqft'' \<mapsto> Str sqft,
                     ''address'' \<mapsto> Str address,
                     ''pets_allowed'' \<mapsto> Str (pets_allowed f),
                     ''laundry'' \<mapsto> Str (laundry f),
                     ''parking'' \<mapsto> Str (parking f),
                     ''cooling'' \<mapsto> Str (cooling f),
                     ''heating'' \<mapsto> Str (heating f)])"

text \<open>
  \<^verbatim>\<open>extract_apartment_details(url)\<close>: the fetch with the default two attempts, \<^verbatim>\<open>None\<close>
  when the result is falsy (\<^verbatim>\<open>None\<close> or the empty string), else the dictionary of the
  parsed page, or the exception raised while it is built. \<^verbatim>\<open>BeautifulSoup\<close> raises
  \<^verbatim>\<open>TypeError\<close> on content that is not a string.
\<close>

definition extract_apartment_details ::
  "lib \<Rightarrow> backend \<Rightarrow> nat \<Rightarrow> string \<Rightarrow> (exn + dict option) \<times> nat" where
  "extract_apartment_details L b n url =
     (let (html, n') = nimble_request b url n 2
      in if \<not> truthy html then (Inr None, n')
         else (case html of
                 Str h \<Rightarrow>
                   (case apartment_details L (BeautifulSoup L h) url of
                      Inl e \<Rightarrow> (Inl e, n')
                    | Inr details \<Rightarrow> (Inr (Some details), n'))
               | _ \<Rightarrow> (Inl TypeError, n')))"

section \<open>The aggregator\<close>

text \<open>
  Lines 232 to 236, inside the \<^verbatim>\<open>try\<close> block of the loop over the cards:
  \<^verbatim>\<open>
    if apartment_details:
        # Update address only if card address is 'Unknown'
        if details['address'] == 'Unknown' and apartment_details.get('address') != 'Unknown':
            details['address'] = apartment_details['address']
        details.update({k: v for k, v in apartment_details.items() if k != 'address'})
  \<close>
  \<open>merge_details\<close> is the part under \<^verbatim>\<open>if apartment_details:\<close>.
\<close>

definition merge_details :: "dict \<Rightarrow> dict \<Rightarrow> exn + dict" where
  "merge_details details ad =
     (case details ''address'' of
        None \<Rightarrow> Inl (KeyError ''address'')
      | Some a \<Rightarrow>
          if a = Str ''Unknown'' \<and> ad ''address'' \<noteq> Some (Str ''Unknown'')
          then (case ad ''address'' of
                  None \<Rightarrow> Inl (KeyError ''address'')
                | Some a' \<Rightarrow> Inr ((details(''address'' \<mapsto> a')) ++ (ad |` (- {''address''}))))
          else Inr (details ++ (ad |` (- {''address''}))))"

text \<open>
  Lines 225 to 241, the loop over the cards:
  \<^verbatim>\<open>
    for card in cards:
        details = extract_property_details(card)
        if details['url']:
            try:
                apartment_details = extract_apartment_details(details['url'])
                if apartment_details:
                    ... merge ...
                all_properties.append(details)
            except Exception as e:
                print(...)
                all_properties.append(details)
            time.sleep(random.uniform(3, 5))
  \<close>
  \<^verbatim>\<open>extract_property_details\<close> is called outside the \<^verbatim>\<open>try\<close> block, so an exception it
  raises ends the run. \<open>card_record\<close> is what the \<^verbatim>\<open>try\<close> statement appends for a card
  with a URL; an exception raised before the merge has changed \<^verbatim>\<open>details\<close> appends
  \<^verbatim>\<open>details\<close> as it was.
\<close>

definition card_record :: "lib \<Rightarrow> backend \<Rightarrow> nat \<Rightarrow> dict \<Rightarrow> string \<Rightarrow> dict \<times> nat" where
  "card_record L b n details url =
     (case extract_apartment_details L b n url of
        (Inl e, n') \<Rightarrow> (details, n')
      | (Inr None, n') \<Rightarrow> (details, n')
      | (Inr (Some ad), n') \<Rightarrow>
          if ad \<noteq> Map.empty
          then (case merge_details details ad of
                  Inl e \<Rightarrow> (details, n')
                | Inr merged \<Rightarrow> (merged, n'))
          else (details, n'))"

fun process_cards :: "lib \<Rightarrow> backend \<Rightarrow> nat \<Rightarrow> card list \<Rightarrow> exn + dict list \<times> nat" where
  "process_cards L b n [] = Inr ([], n)"
| "process_cards L b n (crd # cards) =
     (case extract_property_details L crd of
        Inl e \<Rightarrow> Inl e
      | Inr details \<Rightarrow>
          (case details ''url'' of
             None \<Rightarrow> Inl (KeyError ''url'')
           | Some (Str url) \<Rightarrow>
               if url \<noteq> []
               then (let (rec, n') = card_record L b n details url
                     in case process_cards L b n' cards of
                          Inl e \<Rightarrow> Inl e
                        | Inr (recs, n'') \<Rightarrow> Inr (rec # recs, n''))
               else process_cards L b n cards
           | Some _ \<Rightarrow> process_cards L b n cards))"

text \<open>
  The columns of the output file, and the row that \<^verbatim>\<open>csv.DictWriter.writerow\<close> hands to
  the writer for a record: \<^verbatim>\<open>rowdict.get(key, restval)\<close> for every column, with the
  default \<^verbatim>\<open>restval = ''\<close>. (It raises \<^verbatim>\<open>ValueError\<close> for a record with a key that
  is not a column; the records of the aggregator have no such key, see \<open>record_keys\<close>.)
\<close>

definition csv_columns :: "string list" where
  "csv_columns =
     [''zpid'', ''address'', ''url'', ''price'', ''bedrooms'', ''bathrooms'', ''sqft'',
      ''pets_allowed'', ''laundry'', ''parking'', ''cooling'', ''heating'']"

definition writerow :: "dict \<Rightarrow> val list" where
  "writerow rowdict =
     map (\<lambda>key. case rowdict key of None \<Rightarrow> Str [] | Some v \<Rightarrow> v) csv_columns"

text \<open>
  \<^verbatim>\<open>scrape_zillow_rentals()\<close>, lines 205 to 259: the search page is fetched; when that
  fails the function returns; else the cards are processed and the records collected in
  \<^verbatim>\<open>all_properties\<close> are written, one row each. The result is the list of the records
  written (when it is empty the function returns before it opens the file).
\<close>

definition initial_url :: string where
  "initial_url = ''https://www.zillow.com/bloomington-il-61761/rentals/?searchQueryState=%7B%22isMapVisible%22%3Atrue%2C%22mapBounds%22%3A%7B%22north%22%3A40.636718508366414%2C%22south%22%3A40.43345579864026%2C%22east%22%3A-88.85417987207032%2C%22west%22%3A-89.1054921279297%7D%2C%22filterState%22%3A%7B%22fr%22%3A%7B%22value%22%3Atrue%7D%2C%22fsba%22%3A%7B%22value%22%3Afalse%7D%2C%22fsbo%22%3A%7B%22value%22%3Afalse%7D%2C%22nc%22%3A%7B%22value%22%3Afalse%7D%2C%22cmsn%22%3A%7B%22value%22%3Afalse%7D%2C%22auc%22%3A%7B%22value%22%3Afalse%7D%2C%22fore%22%3A%7B%22value%22%3Afalse%7D%2C%22mp%22%3A%7B%22min%22%3A1000%2C%22max%22%3A2000%7D%2C%22tow%22%3A%7B%22value%22%3Afalse%7D%2C%22mf%22%3A%7B%22value%22%3Afalse%7D%2C%22con%22%3A%7B%22value%22%3Afalse%7D%2C%22land%22%3A%7B%22value%22%3Afalse%7D%2C%22apa%22%3A%7B%22value%22%3Afalse%7D%2C%22manu%22%3A%7B%22value%22%3Afalse%7D%2C%22apco%22%3A%7B%22value%22%3Afalse%7D%2C%22r4r%22%3A%7B%22value%22%3Atrue%7D%7D%2C%22isListVisible%22%3Atrue%2C%22mapZoom%22%3A12%2C%22usersSearchTerm%22%3A%2261761%22%2C%22regionSelection%22%3A%5B%7B%22regionId%22%3A85145%2C%22regionType%22%3A7%7D%5D%7D''"

definition scrape_zillow_rentals :: "lib \<Rightarrow> backend \<Rightarrow> exn + dict list" where
  "scrape_zillow_rentals L b =
     (let (html, n) = nimble_request b initial_url 0 2
      in if \<not> truthy html then Inr []
         else (case html of
                 Str h \<Rightarrow>
                   (case process_cards L b n (select_cards (BeautifulSoup L h)) of
                      Inl e \<Rightarrow> Inl e
                    | Inr (all_properties, n') \<Rightarrow> Inr all_properties)
               | _ \<Rightarrow> Inl TypeError))"

section \<open>The older variant: the detail page with an embedded payload\<close>

text \<open>
  \<^verbatim>\<open>scrape_zillow_old.py\<close> reads a detail page from a JSON payload embedded in a script
  element. JSON values, their Python truthiness and the operations \<^verbatim>\<open>parse_house_page\<close>
  applies to them: \<^verbatim>\<open>d.get(key, default)\<close> raises \<^verbatim>\<open>AttributeError\<close> on a value that is
  not an object. An object is the list of its items, with distinct keys.
\<close>

datatype json = JNull | JBool bool | JNum int | JStr string | JArr "json list"
  | JObj "(string \<times> json) list"

definition json_truthy :: "json \<Rightarrow> bool" where
  "json_truthy j =
     (case j of
        JNull \<Rightarrow> False
      | JBool t \<Rightarrow> t
      | JNum i \<Rightarrow> i \<noteq> 0
      | JStr s \<Rightarrow> s \<noteq> []
      | JArr xs \<Rightarrow> xs \<noteq> []
      | JObj kvs \<Rightarrow> kvs \<noteq> [])"

definition json_get :: "json \<Rightarrow> string \<Rightarrow> json \<Rightarrow> exn + json" where
  "json_get j key dflt =
     (case j of
        JObj kvs \<Rightarrow> Inr (case map_of kvs key of Some v \<Rightarrow> v | None \<Rightarrow> dflt)
      | _ \<Rightarrow> Inl AttributeError)"

text \<open>
  What \<^verbatim>\<open>parse_house_page\<close> and \<^verbatim>\<open>extract_basic_info_from_html\<close> read off a parsed
  detail page: for a selector the script element \<^verbatim>\<open>soup.select_one\<close> returns, given by
  its \<^verbatim>\<open>.string\<close> (which is \<^verbatim>\<open>None\<close> for an element without a single string); the
  \<^verbatim>\<open>.string\<close> of every element of \<^verbatim>\<open>soup.find_all('script')\<close>; the
  \<^verbatim>\<open>get_text(strip=True)\<close> of the element that \<^verbatim>\<open>soup.find(tag, attrs={'data-test': v})\<close>
  or \<^verbatim>\<open>soup.find(tag, class_=v)\<close> returns; and that text for every
  \<^verbatim>\<open>span\<close> with \<^verbatim>\<open>data-test="bed-bath-brief"\<close>. \<^verbatim>\<open>json.loads\<close> returns a value or
  raises \<^verbatim>\<open>JSONDecodeError\<close> (\<open>None\<close>).
\<close>

record house_page =
  select_one_script :: "string \<Rightarrow> string option option"
  find_all_script :: "string option list"
  find_data_test :: "string \<Rightarrow> string \<Rightarrow> string option"
  find_class :: "string \<Rightarrow> string \<Rightarrow> string option"
  find_all_bed_bath :: "string list"

record lib_old = builtins +
  BeautifulSoup_old :: "string \<Rightarrow> house_page"
  json_loads :: "string \<Rightarrow> json option"

text \<open>
  \<^verbatim>\<open>extract_basic_info_from_html(soup)\<close>, lines 398 to 442: each field is set when one of
  its two lookups finds an element (\<^verbatim>\<open>soup.find(..) or soup.find(..)\<close>).
\<close>

definition find_either :: "house_page \<Rightarrow> string \<Rightarrow> string \<Rightarrow> string \<Rightarrow> string option" where
  "find_either pg tag data_test cls =
     (case find_data_test pg tag data_test of
        Some t \<Rightarrow> Some t
      | None \<Rightarrow> find_class pg tag cls)"

definition set_if_found :: "string \<Rightarrow> string option \<Rightarrow> dict \<Rightarrow> dict" where
  "set_if_found key elem data = (case elem of Some t \<Rightarrow> data(key \<mapsto> Str t) | None \<Rightarrow> data)"

definition bed_bath_item :: "string \<Rightarrow> dict \<Rightarrow> dict" where
  "bed_bath_item text data =
     (if str_contains text ''bd'' then data(''bedrooms'' \<mapsto> Str text)
      else if str_contains text ''ba'' then data(''bathrooms'' \<mapsto> Str text)
      else data)"

definition extract_basic_info_from_html :: "house_page \<Rightarrow> dict" where
  "extract_basic_info_from_html pg =
     (let data = Map.empty;
          data = set_if_found ''price'' (find_either pg ''span'' ''price'' ''price'') data;
          data = set_if_found ''address''
                   (find_either pg ''h1'' ''home-details-summary-address'' ''address'') data;
          data = fold bed_bath_item (find_all_bed_bath pg) data;
          data = set_if_found ''square_feet'' (find_either pg ''span'' ''property-size'' ''sqft'') data;
          data = set_if_found ''home_type''
                   (find_either pg ''span'' ''property-type'' ''home-type'') data;
          data = set_if_found ''year_built''
                   (find_either pg ''span'' ''year-built'' ''year-built'') data
      in data)"

text \<open>
  The choice of the script element, lines 505 to 526: the first of four selectors that
  finds one, else the first script whose string is non-empty and contains "apiCache" or
  "property". The result is the chosen element's \<^verbatim>\<open>.string\<close>.
\<close>

definition script_selectors :: "string list" where
  \<open>script_selectors =
     [''script#hdpApolloPreloadedData'',
      ''script[data-zillow-zpid]'',
      ''script[type="application/json"]'',
      ''script:contains("apiCache")'']\<close>

fun first_selected :: "(string \<Rightarrow> string option option) \<Rightarrow> string list \<Rightarrow> string option option" where
  "first_selected sel [] = None"
| "first_selected sel (s # ss) =
     (case sel s of Some script \<Rightarrow> Some script | None \<Rightarrow> first_selected sel ss)"

definition holds_property_data :: "string option \<Rightarrow> bool" where
  "holds_property_data s =
     (case s of
        None \<Rightarrow> False
      | Some str \<Rightarrow> str \<noteq> [] \<and> (str_contains str ''apiCache'' \<or> str_contains str ''property''))"

definition choose_script :: "house_page \<Rightarrow> string option option" where
  "choose_script pg =
     (case first_selected (select_one_script pg) script_selectors of
        Some script \<Rightarrow> Some script
      | None \<Rightarrow> find holds_property_data (find_all_script pg))"

text \<open>
  The loop over \<^verbatim>\<open>api_cache.values()\<close>, lines 548 to 551:
  \<^verbatim>\<open>
    for value in api_cache.values():
        if 'property' in value:
            prop = value['property']
            break
  \<close>
  \<open>Inr True\<close> when the loop ends by \<^verbatim>\<open>break\<close>, \<open>Inr False\<close> when it runs to its end;
  \<^verbatim>\<open>in\<close> raises \<^verbatim>\<open>TypeError\<close> on a number, a boolean or null, and indexing a string or
  a list by a string raises \<^verbatim>\<open>TypeError\<close>.
\<close>

fun scan_values :: "json list \<Rightarrow> exn + bool" where
  "scan_values [] = Inr False"
| "scan_values (v # vs) =
     (case v of
        JObj kvs \<Rightarrow> if ''property'' \<in> fst ` set kvs then Inr True else scan_values vs
      | JStr s \<Rightarrow> if str_contains s ''property'' then Inl TypeError else scan_values vs
      | JArr xs \<Rightarrow> if JStr ''property'' \<in> set xs then Inl TypeError else scan_values vs
      | _ \<Rightarrow> Inl TypeError)"

text \<open>
  The \<^verbatim>\<open>try\<close> block of \<^verbatim>\<open>parse_house_page\<close>, lines 533 to 652. The statements under
  \<^verbatim>\<open>if not prop:\<close> that follow its \<^verbatim>\<open>return\<close> (lines 559 to 650) are never
  executed, so the block returns the result of \<^verbatim>\<open>extract_basic_info_from_html\<close> when the
  loop ends without \<^verbatim>\<open>break\<close> and \<^verbatim>\<open>preloaded_data.get('property', {})\<close> is falsy, and
  the empty dictionary otherwise. \<open>Inl\<close> is an exception raised in the block.
\<close>

definition clean_script :: "lib_old \<Rightarrow> string \<Rightarrow> string" where
  "clean_script L str =
     (let script_content = strip L str
      in if startswith script_content ''window.__INITIAL_STATE__=''
         then str_replace script_content ''window.__INITIAL_STATE__='' []
         else if startswith script_content ''window.__APOLLO_STATE__=''
         then str_replace script_content ''window.__APOLLO_STATE__='' []
         else script_content)"

definition parse_payload :: "lib_old \<Rightarrow> house_page \<Rightarrow> string option \<Rightarrow> exn + dict" where
  "parse_payload L pg script_string =
     (case script_string of
        None \<Rightarrow> Inl AttributeError
      | Some str \<Rightarrow>
          (case json_loads L (clean_script L str) of
             None \<Rightarrow> Inl JSONDecodeError
           | Some preloaded_data \<Rightarrow>
               (case json_get preloaded_data ''apiCache'' (JObj []) of
                  Inl e \<Rightarrow> Inl e
                | Inr api_cache0 \<Rightarrow>
                    (case (if \<not> json_truthy api_cache0
                           then json_get preloaded_data ''property'' (JObj [])
                           else Inr api_cache0) of
                       Inl e \<Rightarrow> Inl e
                     | Inr api_cache \<Rightarrow>
                         (case api_cache of
                            JObj kvs \<Rightarrow>
                              (case scan_values (map snd kvs) of
                                 Inl e \<Rightarrow> Inl e
                               | Inr True \<Rightarrow> Inr Map.empty
                               | Inr False \<Rightarrow>
                                   (case json_get preloaded_data ''property'' (JObj []) of
                                      Inl e \<Rightarrow> Inl e
                                    | Inr prop \<Rightarrow>
                                        if \<not> json_truthy prop
                                        then Inr (extract_basic_info_from_html pg)
                                        else Inr Map.empty))
                          | _ \<Rightarrow> Inl AttributeError)))))"

text \<open>
  \<^verbatim>\<open>parse_house_page(html)\<close>: without a script the page's HTML is read; with one, the
  \<^verbatim>\<open>try\<close> block runs, and both handlers (\<^verbatim>\<open>except json.JSONDecodeError\<close>,
  \<^verbatim>\<open>except Exception\<close>) log and \<^verbatim>\<open>return {}\<close>.
\<close>

definition parse_house_page :: "lib_old \<Rightarrow> string \<Rightarrow> dict" where
  "parse_house_page L html =
     (let pg = BeautifulSoup_old L html
      in case choose_script pg of
           None \<Rightarrow> extract_basic_info_from_html pg
         | Some script_string \<Rightarrow>
             (case parse_payload L pg script_string of
                Inl e \<Rightarrow> Map.empty
              | Inr data \<Rightarrow> data))"

text \<open>
  The loop of \<^verbatim>\<open>process_individual_cards\<close>, lines 768 to 831, over the card entries
  that \<^verbatim>\<open>parse_search_page\<close> returned, numbered from 1:
  \<^verbatim>\<open>
    for i, card_data in enumerate(card_data_list, 1):
        href = card_data.get('detail_url')
        if not href:
            continue
        if use_clicks:
            detail_html, _ = nimble_request(initial_url, render_flow=card_click_flow)
        else:
            detail_html, _ = nimble_request(href, render_flow=detail_render_flow)
        if detail_html:
            house_data = parse_house_page(detail_html)
            if house_data:
                house_data['card_index'] = i
                house_data['detail_url'] = href
                house_data['card_price'] = card_data.get('card_price', '')
                ...
                all_data.append(house_data)
            else:
                fallback_data = {'card_index': i, 'detail_url': href, ..., 'source': 'card_data_only'}
                all_data.append(fallback_data)
        else:
            logger.error(...)
        time.sleep(2)
  \<close>
  An exception that \<^verbatim>\<open>nimble_request\<close> lets through ends the run, and so does the
  \<^verbatim>\<open>TypeError\<close> of \<^verbatim>\<open>BeautifulSoup\<close> on content that is not a string. The
  \<^verbatim>\<open>detail_url\<close> of a card entry is a string when it is present.
\<close>

definition card_level :: "dict \<Rightarrow> string \<Rightarrow> val" where
  "card_level card_data key = (case card_data key of Some v \<Rightarrow> v | None \<Rightarrow> Str [])"

definition add_card_data :: "dict \<Rightarrow> int \<Rightarrow> val \<Rightarrow> dict \<Rightarrow> dict" where
  "add_card_data house_data i href card_data =
     house_data
       (''card_index'' \<mapsto> Num i,
        ''detail_url'' \<mapsto> href,
        ''card_price'' \<mapsto> card_level card_data ''card_price'',
        ''card_address'' \<mapsto> card_level card_data ''card_address'',
        ''card_bedrooms'' \<mapsto> card_level card_data ''card_bedrooms'',
        ''card_bathrooms'' \<mapsto> card_level card_data ''card_bathrooms'',
        ''card_sqft'' \<mapsto> card_level card_data ''card_sqft'',
        ''card_home_type'' \<mapsto> card_level card_data ''card_home_type'')"

definition fallback_data :: "int \<Rightarrow> val \<Rightarrow> dict \<Rightarrow> dict" where
  "fallback_data i href card_data =
     (add_card_data Map.empty i href card_data)(''source'' \<mapsto> Str ''card_data_only'')"

fun process_individual_cards_loop ::
  "lib_old \<Rightarrow> backend \<Rightarrow> bool \<Rightarrow> string \<Rightarrow> nat \<Rightarrow> int \<Rightarrow> dict list \<Rightarrow> exn + dict list \<times> nat" where
  "process_individual_cards_loop L b use_clicks search_url n i [] = Inr ([], n)"
| "process_individual_cards_loop L b use_clicks search_url n i (card_data # rest) =
     (case card_data ''detail_url'' of
        Some (Str href) \<Rightarrow>
          if href = [] then process_individual_cards_loop L b use_clicks search_url n (i + 1) rest
          else (case nimble_request_old b (if use_clicks then search_url else href) n 3 of
                  Inl e \<Rightarrow> Inl e
                | Inr (detail_html, n1) \<Rightarrow>
                    (case detail_html of
                       Str h \<Rightarrow>
                         if h = []
                         then process_individual_cards_loop L b use_clicks search_url n1 (i + 1) rest
                         else (let house_data = parse_house_page L h;
                                   entry = (if house_data \<noteq> Map.empty
                                            then add_card_data house_data i (Str href) card_data
                                            else fallback_data i (Str href) card_data)
                               in case process_individual_cards_loop L b use_clicks search_url n1
                                         (i + 1) rest of
                                    Inl e \<Rightarrow> Inl e
                                  | Inr (all_data, n2) \<Rightarrow> Inr (entry # all_data, n2))
                     | NoneV \<Rightarrow> process_individual_cards_loop L b use_clicks search_url n1 (i + 1) rest
                     | Num k \<Rightarrow>
                         if k = 0
                         then process_individual_cards_loop L b use_clicks search_url n1 (i + 1) rest
                         else Inl TypeError))
      | _ \<Rightarrow> process_individual_cards_loop L b use_clicks search_url n (i + 1) rest)"

section \<open>Concrete inputs\<close>

text \<open>
  The values of \<^verbatim>\<open>strip\<close> and \<^verbatim>\<open>lower\<close> on ASCII text, for the libraries of the
  examples below, whose pages, cards and URLs hold ASCII text only: the ASCII characters
  that \<^verbatim>\<open>str.isspace\<close> accepts are the tab, the line feed, the vertical tab, the form
  feed, the carriage return, the four separators 0x1C to 0x1F and the space.
\<close>

definition ascii_space :: "char \<Rightarrow> bool" where
  "ascii_space c = (c \<in> set [CHR 0x09, CHR 0x0A, CHR 0x0B, CHR 0x0C, CHR 0x0D,
                              CHR 0x1C, CHR 0x1D, CHR 0x1E, CHR 0x1F, CHR '' ''])"

definition ascii_strip :: "string \<Rightarrow> string" where
  "ascii_strip s = rev (dropWhile ascii_space (rev (dropWhile ascii_space s)))"

definition ascii_lower :: "string \<Rightarrow> string" where
  "ascii_lower s =
     map (\<lambda>c. case map_of (zip ''ABCDEFGHIJKLMNOPQRSTUVWXYZ'' ''abcdefghijklmnopqrstuvwxyz'') c of
                Some d \<Rightarrow> d
              | None \<Rightarrow> c) s"

text \<open>The backends used as concrete inputs below.\<close>

definition success_reply :: "string \<Rightarrow> reply" where
  "success_reply h =
     Http 200 (Json_object [''status'' \<mapsto> Str ''success'', ''html_content'' \<mapsto> Str h])"





text \<open>
  A card whose \<^verbatim>\<open>property-card-link\<close> anchor has no \<^verbatim>\<open>href\<close>:
  \<^verbatim>\<open><article id="zpid_7"><a data-test="property-card-link">Open</a></article>\<close>.
\<close>

definition card_without_href :: card where
  "card_without_href =
     \<lparr>card_attrs = [''id'' \<mapsto> ''zpid_7''],
      find_link = Some \<lparr>attrs = [''data-test'' \<mapsto> ''property-card-link'']\<rparr>,
      card_select_one = (\<lambda>selector. None),
      card_get_text = ''Open''\<rparr>"

text \<open>A summary and a detail dictionary that both know the address, and differ.\<close>

definition summary_main_st :: dict where
  "summary_main_st =
     [''zpid'' \<mapsto> Str ''7'', ''url'' \<mapsto> Str ''https://www.zillow.com/homedetails/7_zpid/'',
      ''address'' \<mapsto> Str ''123 Main St'']"



definition detail_unknown :: dict where
  "detail_unknown = [''price'' \<mapsto> Str ''$1,200/mo'', ''address'' \<mapsto> Str ''Unknown'']"

text \<open>
  A search page that shows the same listing on two cards (both anchors lead to
  \<^verbatim>\<open>/homedetails/7_zpid/\<close>), libraries that parse every page to it, and a backend
  that delivers the search page and then fails on every detail page. The page has no
  text and no element but the cards, so no regular expression of the scraper matches on
  it, on the cards' texts or on the path \<^verbatim>\<open>/homedetails/7_zpid/\<close>; \<^verbatim>\<open>urlparse\<close> is
  given on the two URLs of the examples, and raises on \<^verbatim>\<open>http://[x\<close>.
\<close>

definition card_main_st :: card where
  \<open>card_main_st =
     \<lparr>card_attrs = [''id'' \<mapsto> ''zpid_7''],
      find_link = Some \<lparr>attrs = [''href'' \<mapsto> ''/homedetails/7_zpid/'']\<rparr>,
      card_select_one = [''address[data-test="property-card-addr"]'' \<mapsto> ''123 Main St''],
      card_get_text = ''123 Main St''\<rparr>\<close>

definition page_same_listing_twice :: soup where
  "page_same_listing_twice =
     \<lparr>select_cards = [card_main_st, card_main_st],
      select_one = (\<lambda>selector. None),
      select_items = (\<lambda>selector. []),
      get_text = []\<rparr>"

definition lib_same_listing_twice :: lib where
  "lib_same_listing_twice =
     \<lparr>strip = ascii_strip,
      lower = ascii_lower,
      BeautifulSoup = (\<lambda>html. page_same_listing_twice),
      re_search = (\<lambda>re text. None),
      urlparse_path =
        [''https://www.zillow.com/homedetails/7_zpid/'' \<mapsto> ''/homedetails/7_zpid/'']\<rparr>"

text \<open>The summary of a card whose anchor leads to \<^verbatim>\<open>http://[x\<close>.\<close>

definition summary_bad_url :: dict where
  "summary_bad_url =
     [''zpid'' \<mapsto> Str ''8'', ''url'' \<mapsto> Str ''http://[x'', ''address'' \<mapsto> Str ''9 Elm St'']"

definition backend_details_fail :: backend where
  "backend_details_fail n url = (if n = 0 then success_reply ''<html>'' else Transport_error)"

text \<open>An element that matched the card selector and holds no anchor.\<close>

definition card_without_link :: card where
  "card_without_link =
     \<lparr>card_attrs = Map.empty,
      find_link = None,
      card_select_one = (\<lambda>selector. None),
      card_get_text = ''Loading''\<rparr>"

definition backend_always_fails :: backend where
  "backend_always_fails n url = Transport_error"

definition backend_always_succeeds :: backend where
  "backend_always_succeeds n url = success_reply ''<html>''"

text \<open>
  A detail page of the older variant whose payload script is cut off, so that
  \<^verbatim>\<open>json.loads\<close> raises, while its HTML shows the price; and a card entry for it.
\<close>

definition page_bad_payload :: house_page where
  \<open>page_bad_payload =
     \<lparr>select_one_script = [''script#hdpApolloPreloadedData'' \<mapsto> Some ''{"apiCache": ''],
      find_all_script = [Some ''{"apiCache": ''],
      find_data_test = (\<lambda>tag v. if tag = ''span'' \<and> v = ''price'' then Some ''$1,200'' else None),
      find_class = (\<lambda>tag v. None),
      find_all_bed_bath = []\<rparr>\<close>

definition lib_bad_payload :: lib_old where
  "lib_bad_payload =
     \<lparr>strip = ascii_strip,
      lower = ascii_lower,
      BeautifulSoup_old = (\<lambda>html. page_bad_payload),
      json_loads = (\<lambda>str. None)\<rparr>"

definition card_entry :: dict where
  "card_entry =
     [''detail_url'' \<mapsto> Str ''https://www.zillow.com/homedetails/7_zpid/'',
      ''card_price'' \<mapsto> Str ''$1,200/mo'']"

section \<open>The fetch client: retries\<close>

lemma attempt_Transport_error: "attempt Transport_error = Inl RequestException"
  by (simp add: attempt_def)

lemma attempt_http_error: "400 \<le> c \<Longrightarrow> c < 600 \<Longrightarrow> attempt (Http c bd) = Inl HTTPError"
  by (simp add: attempt_def)

lemma attempt_success_reply: "attempt (success_reply h) = Inr (Str h)"
  by (simp add: attempt_def success_reply_def)




lemma nimble_request_backend_error:
  "attempt (b n url) = Inr v \<Longrightarrow> nimble_request b url n (Suc k) = (v, Suc n)"
  by simp




section \<open>Field extraction: the first selector that finds an element wins\<close>


lemma ascii_strip_examples:
  "ascii_strip ''  '' = []" "ascii_strip ''$1,400'' = ''$1,400''"
  "ascii_strip ''$1,500'' = ''$1,500''" "ascii_strip ''123 Main St'' = ''123 Main St''"
  "ascii_strip ''Loading'' = ''Loading''"
  by (simp_all add: ascii_strip_def ascii_space_def)

lemma strip_example_lib: "strip lib_same_listing_twice = ascii_strip"
  by (simp add: lib_same_listing_twice_def)




section \<open>The card extractor\<close>

lemma card_url_raises_iff:
  "(\<exists>e. card_url c = Inl e) \<longleftrightarrow> (\<exists>link. find_link c = Some link \<and> attrs link ''href'' = None)"
  by (auto simp: card_url_def split: option.splits)

lemma extract_property_details_Inr:
  "extract_property_details L c = Inr d \<Longrightarrow>
   \<exists>zpid url address. card_url c = Inr url \<and>
      d = [''zpid'' \<mapsto> Str zpid, ''url'' \<mapsto> url, ''address'' \<mapsto> Str address]"
  by (auto simp: extract_property_details_def Let_def split: sum.splits)

lemma extract_property_details_raises_iff:
  "(\<exists>e. extract_property_details L c = Inl e) \<longleftrightarrow> (\<exists>e. card_url c = Inl e)"
  by (auto simp: extract_property_details_def Let_def split: sum.splits)

text \<open>
  Claim C10: \<^verbatim>\<open>extract_property_details\<close> is total, also on a card whose anchor has no
  \<^verbatim>\<open>href\<close>, where it returns a record with \<^verbatim>\<open>url\<close> \<^verbatim>\<open>None\<close>. The code guards the first
  branch of the conditional expression with \<^verbatim>\<open>'href' in link.attrs\<close> and then reads
  \<^verbatim>\<open>link['href']\<close> in the other branch: on such a card it raises \<^verbatim>\<open>KeyError\<close>, whatever
  the libraries do.
\<close>

theorem C10_anchor_without_href_raises:
  "extract_property_details L card_without_href = Inl (KeyError ''href'')"
  by (simp add: extract_property_details_def card_url_def card_without_href_def)

section \<open>Merging the summary and the detail page\<close>

lemma merge_details_Inr:
  assumes "details ''address'' = Some a" and "ad ''address'' = Some a'"
  shows "merge_details details ad =
           Inr ((details(''address'' \<mapsto> (if a = Str ''Unknown'' then a' else a)))
                  ++ (ad |` (- {''address''})))"
proof -
  have "details(''address'' \<mapsto> a) = details" using assms(1) by (rule map_upd_triv)
  then show ?thesis using assms by (auto simp: merge_details_def)
qed

lemma merge_details_known_address:
  assumes "details ''address'' = Some a" and "a \<noteq> Str ''Unknown''"
  shows "merge_details details ad = Inr (details ++ (ad |` (- {''address''})))"
  using assms by (simp add: merge_details_def)




section \<open>The records of the aggregator\<close>

lemma apartment_details_Inr:
  assumes "apartment_details L sp url = Inr ad"
  shows "\<exists>price bed bath sqft address pets lndry park cool heat.
           ad = [''price'' \<mapsto> Str price, ''bedrooms'' \<mapsto> Str bed, ''bathrooms'' \<mapsto> Str bath,
                 ''sqft'' \<mapsto> Str sqft, ''address'' \<mapsto> Str address,
                 ''pets_allowed'' \<mapsto> Str pets, ''laundry'' \<mapsto> Str lndry,
                 ''parking'' \<mapsto> Str park, ''cooling'' \<mapsto> Str cool, ''heating'' \<mapsto> Str heat]"
proof (cases "detail_address L sp url")
  case (Inl e)
  with assms show ?thesis by (simp add: apartment_details_def Let_def case_prod_beta)
next
  case (Inr address)
  with assms have "Inr ad = apartment_details L sp url" by simp
  also have "\<dots> = Inr [''price'' \<mapsto> Str (first_match L (select_one sp) price_selectors ''Unknown''),
          ''bedrooms'' \<mapsto> Str (fst (bed_bath_sqft L sp)),
          ''bathrooms'' \<mapsto> Str (fst (snd (bed_bath_sqft L sp))),
          ''sqft'' \<mapsto> Str (snd (snd (bed_bath_sqft L sp))),
          ''address'' \<mapsto> Str address,
          ''pets_allowed'' \<mapsto> Str (pets_allowed (facts_loop L (select_items sp) facts_selectors facts_default)),
          ''laundry'' \<mapsto> Str (laundry (facts_loop L (select_items sp) facts_selectors facts_default)),
          ''parking'' \<mapsto> Str (parking (facts_loop L (select_items sp) facts_selectors facts_default)),
          ''cooling'' \<mapsto> Str (cooling (facts_loop L (select_items sp) facts_selectors facts_default)),
          ''heating'' \<mapsto> Str (heating (facts_loop L (select_items sp) facts_selectors facts_default))]"
    using Inr by (simp add: apartment_details_def Let_def case_prod_beta)
  finally show ?thesis by (intro exI) (simp only: sum.inject)
qed

lemma apartment_details_dom:
  assumes "apartment_details L sp url = Inr ad"
  shows "dom ad =
     {''price'', ''bedrooms'', ''bathrooms'', ''sqft'', ''address'', ''pets_allowed'',
      ''laundry'', ''parking'', ''cooling'', ''heating''}"
proof -
  from apartment_details_Inr [OF assms] obtain price bed bath sqft address pets lndry park cool heat
    where "ad = [''price'' \<mapsto> Str price, ''bedrooms'' \<mapsto> Str bed, ''bathrooms'' \<mapsto> Str bath,
                 ''sqft'' \<mapsto> Str sqft, ''address'' \<mapsto> Str address,
                 ''pets_allowed'' \<mapsto> Str pets, ''laundry'' \<mapsto> Str lndry,
                 ''parking'' \<mapsto> Str park, ''cooling'' \<mapsto> Str cool, ''heating'' \<mapsto> Str heat]"
    by (elim exE)
  then show ?thesis by auto
qed

lemma apartment_details_address:
  assumes "apartment_details L sp url = Inr ad"
  shows "\<exists>a. ad ''address'' = Some (Str a)"
proof -
  from apartment_details_Inr [OF assms] obtain price bed bath sqft address pets lndry park cool heat
    where "ad = [''price'' \<mapsto> Str price, ''bedrooms'' \<mapsto> Str bed, ''bathrooms'' \<mapsto> Str bath,
                 ''sqft'' \<mapsto> Str sqft, ''address'' \<mapsto> Str address,
                 ''pets_allowed'' \<mapsto> Str pets, ''laundry'' \<mapsto> Str lndry,
                 ''parking'' \<mapsto> Str park, ''cooling'' \<mapsto> Str cool, ''heating'' \<mapsto> Str heat]"
    by (elim exE)
  then show ?thesis by simp
qed

lemma apartment_details_nonempty: "apartment_details L sp url = Inr ad \<Longrightarrow> ad \<noteq> Map.empty"
  using apartment_details_address [of L sp url ad] by auto

lemma apartment_details_Str:
  assumes "apartment_details L sp url = Inr ad" and "ad k = Some v"
  shows "\<exists>s. v = Str s"
proof -
  from apartment_details_Inr [OF assms(1)] obtain price bed bath sqft address pets lndry park cool heat
    where "ad = [''price'' \<mapsto> Str price, ''bedrooms'' \<mapsto> Str bed, ''bathrooms'' \<mapsto> Str bath,
                 ''sqft'' \<mapsto> Str sqft, ''address'' \<mapsto> Str address,
                 ''pets_allowed'' \<mapsto> Str pets, ''laundry'' \<mapsto> Str lndry,
                 ''parking'' \<mapsto> Str park, ''cooling'' \<mapsto> Str cool, ''heating'' \<mapsto> Str heat]"
    by (elim exE)
  with assms(2) show ?thesis by (auto split: if_splits)
qed

lemma extract_apartment_details_cases:
  "extract_apartment_details L b n url = (x, n') \<Longrightarrow>
   x = Inr None \<or> (\<exists>e. x = Inl e) \<or>
   (\<exists>h ad. apartment_details L (BeautifulSoup L h) url = Inr ad \<and> x = Inr (Some ad))"
  by (auto simp: extract_apartment_details_def Let_def
      split: prod.splits if_splits val.splits sum.splits)

lemma card_record_cases:
  "card_record L b n details url = (r, n') \<Longrightarrow>
   r = details \<or>
   (\<exists>sp ad. apartment_details L sp url = Inr ad \<and> merge_details details ad = Inr r)"
  apply (cases "extract_apartment_details L b n url")
  apply (frule extract_apartment_details_cases)
  apply (auto simp: card_record_def split: sum.splits if_splits)
  done

lemma csv_columns_split: "set csv_columns = {''zpid'', ''url'', ''address''} \<union>
   ({''price'', ''bedrooms'', ''bathrooms'', ''sqft'', ''address'', ''pets_allowed'',
      ''laundry'', ''parking'', ''cooling'', ''heating''} - {''address''})"
  unfolding csv_columns_def by auto

lemma apartment_details_no_summary_keys:
  assumes "apartment_details L sp url = Inr ad"
  shows "ad ''zpid'' = None" and "ad ''url'' = None"
proof -
  from apartment_details_Inr [OF assms] obtain price bed bath sqft address pets lndry park cool heat
    where "ad = [''price'' \<mapsto> Str price, ''bedrooms'' \<mapsto> Str bed, ''bathrooms'' \<mapsto> Str bath,
                 ''sqft'' \<mapsto> Str sqft, ''address'' \<mapsto> Str address,
                 ''pets_allowed'' \<mapsto> Str pets, ''laundry'' \<mapsto> Str lndry,
                 ''parking'' \<mapsto> Str park, ''cooling'' \<mapsto> Str cool, ''heating'' \<mapsto> Str heat]"
    by (elim exE)
  then show "ad ''zpid'' = None" and "ad ''url'' = None" by simp_all
qed

lemma merge_summary:
  assumes d: "details = [''zpid'' \<mapsto> z, ''url'' \<mapsto> u, ''address'' \<mapsto> Str a]"
    and ad: "apartment_details L sp url = Inr ad"
    and m: "merge_details details ad = Inr r"
  shows "r ''zpid'' = Some z" and "r ''url'' = Some u"
    and "a \<noteq> ''Unknown'' \<Longrightarrow> r ''address'' = Some (Str a)"
    and "dom r = set csv_columns"
proof -
  let ?ad = "ad"
  obtain a' where a': "?ad ''address'' = Some (Str a')"
    using apartment_details_address [OF ad] by blast
  have da: "details ''address'' = Some (Str a)" using d by simp
  define d' where "d' = details(''address'' \<mapsto> (if Str a = Str ''Unknown'' then Str a' else Str a))"
  have r: "r = d' ++ (?ad |` (- {''address''}))"
    unfolding d'_def
    using merge_details_Inr [of details "Str a" ?ad "Str a'"] da a' m by simp
  have nz: "(?ad |` (- {''address''})) ''zpid'' = None" "(?ad |` (- {''address''})) ''url'' = None"
     "(?ad |` (- {''address''})) ''address'' = None"
    by (simp_all add: apartment_details_no_summary_keys [OF ad] restrict_map_def)
  have d'z: "d' ''zpid'' = Some z" "d' ''url'' = Some u" unfolding d'_def d by simp_all
  show "r ''zpid'' = Some z" using nz d'z by (simp add: r map_add_def)
  show "r ''url'' = Some u" using nz d'z by (simp add: r map_add_def)
  show "a \<noteq> ''Unknown'' \<Longrightarrow> r ''address'' = Some (Str a)"
    using nz by (simp add: r map_add_def d'_def)
  have "dom d' = {''zpid'', ''url'', ''address''}" unfolding d'_def d by auto
  moreover have "dom (?ad |` (- {''address''})) = dom ?ad - {''address''}" by auto
  ultimately have "dom r = {''zpid'', ''url'', ''address''} \<union> (dom ?ad - {''address''})"
    unfolding r by (simp only: dom_map_add Un_commute)
  then show "dom r = set csv_columns"
    by (simp only: apartment_details_dom [OF ad] csv_columns_split)
qed

lemma card_record_summary:
  assumes d: "details = [''zpid'' \<mapsto> z, ''url'' \<mapsto> u, ''address'' \<mapsto> Str a]"
    and c: "card_record L b n details url = (r, n')"
  shows "r ''zpid'' = Some z" and "r ''url'' = Some u"
    and "a \<noteq> ''Unknown'' \<Longrightarrow> r ''address'' = Some (Str a)"
    and "dom r = {''zpid'', ''url'', ''address''} \<or> dom r = set csv_columns"
proof -
  from card_record_cases [OF c]
  consider "r = details"
    | sp ad where "apartment_details L sp url = Inr ad" "merge_details details ad = Inr r"
    by blast
  then have "r ''zpid'' = Some z \<and> r ''url'' = Some u
      \<and> (a \<noteq> ''Unknown'' \<longrightarrow> r ''address'' = Some (Str a))
      \<and> (dom r = {''zpid'', ''url'', ''address''} \<or> dom r = set csv_columns)"
  proof cases
    case 1
    have "dom details = {''zpid'', ''url'', ''address''}" unfolding d by auto
    then show ?thesis using 1 d by simp
  next
    case 2
    show ?thesis using merge_summary [OF d 2] by simp
  qed
  then show "r ''zpid'' = Some z" and "r ''url'' = Some u"
    and "a \<noteq> ''Unknown'' \<Longrightarrow> r ''address'' = Some (Str a)"
    and "dom r = {''zpid'', ''url'', ''address''} \<or> dom r = set csv_columns"
    by blast+
qed

lemma card_url_val: "card_url c = Inr v \<Longrightarrow> v = NoneV \<or> (\<exists>u. v = Str u)"
  by (auto simp: card_url_def split: option.splits if_splits)

lemma process_cards_Cons_Inr:
  assumes "process_cards L b n (c # cards) = Inr (recs, n')"
  shows "\<exists>z v a. extract_property_details L c
                   = Inr [''zpid'' \<mapsto> Str z, ''url'' \<mapsto> v, ''address'' \<mapsto> Str a]
           \<and> card_url c = Inr v
           \<and> (if truthy v
               then \<exists>u r n1 recs'. v = Str u \<and> u \<noteq> []
                      \<and> card_record L b n [''zpid'' \<mapsto> Str z, ''url'' \<mapsto> v, ''address'' \<mapsto> Str a] u = (r, n1)
                      \<and> process_cards L b n1 cards = Inr (recs', n') \<and> recs = r # recs'
               else process_cards L b n cards = Inr (recs, n'))"
proof -
  from assms obtain details where e: "extract_property_details L c = Inr details"
    by (auto split: sum.splits)
  from extract_property_details_Inr [OF e] obtain z v a where
    v: "card_url c = Inr v" and d: "details = [''zpid'' \<mapsto> Str z, ''url'' \<mapsto> v, ''address'' \<mapsto> Str a]"
    by blast
  have du: "details ''url'' = Some v" using d by simp
  from card_url_val [OF v] show ?thesis
  proof
    assume "v = NoneV"
    with assms e du v d show ?thesis by (auto simp: truthy_def)
  next
    assume "\<exists>u. v = Str u"
    then obtain u where u: "v = Str u" by blast
    show ?thesis
    proof (cases "u = []")
      case True
      with assms e du v d u show ?thesis by (auto simp: truthy_def)
    next
      case False
      obtain r n1 where cr: "card_record L b n details u = (r, n1)" by (cases "card_record L b n details u")
      with assms e du u False obtain recs' where
        "process_cards L b n1 cards = Inr (recs', n')" "recs = r # recs'"
        by (auto split: sum.splits)
      with e v d u False cr show ?thesis by (auto simp: truthy_def)
    qed
  qed
qed

lemma zpid_of_card_main_st: "str_replace (str_replace ''zpid_7'' ''zpid_'' []) ''property-card-'' [] = ''7''"
  by (simp add: str_replace.simps startswith_def)

lemma extract_card_main_st:
  "extract_property_details lib_same_listing_twice card_main_st = Inr summary_main_st"
  by (simp add: extract_property_details_def card_main_st_def card_url_def startswith_def
      zpid_of_card_main_st address_selectors_def strip_example_lib ascii_strip_examples
      summary_main_st_def)

lemma nimble_request_details_fail: "0 < n \<Longrightarrow> nimble_request backend_details_fail url n 2 = (NoneV, n + 2)"
  by (simp add: numeral_2_eq_2 backend_details_fail_def attempt_Transport_error)

lemma card_record_fail:
  "0 < n \<Longrightarrow> card_record L backend_details_fail n details url = (details, n + 2)"
  by (simp add: card_record_def extract_apartment_details_def nimble_request_details_fail truthy_def)

lemma run_same_listing_twice:
  "scrape_zillow_rentals lib_same_listing_twice backend_details_fail
     = Inr [summary_main_st, summary_main_st]"
proof -
  have 0: "nimble_request backend_details_fail initial_url 0 2 = (Str ''<html>'', 1)"
    by (simp add: numeral_2_eq_2 backend_details_fail_def attempt_success_reply)
  have u: "summary_main_st ''url'' = Some (Str ''https://www.zillow.com/homedetails/7_zpid/'')"
    by (simp add: summary_main_st_def)
  have "process_cards lib_same_listing_twice backend_details_fail 1 [card_main_st, card_main_st]
          = Inr ([summary_main_st, summary_main_st], 5)"
    by (simp add: extract_card_main_st u card_record_fail)
  then show ?thesis
    by (simp add: scrape_zillow_rentals_def 0 truthy_def lib_same_listing_twice_def
        page_same_listing_twice_def)
qed

lemma writerow_summary_main_st: "writerow summary_main_st =
  [Str ''7'', Str ''123 Main St'', Str ''https://www.zillow.com/homedetails/7_zpid/'',
   Str [], Str [], Str [], Str [], Str [], Str [], Str [], Str [], Str []]"
  by (simp add: writerow_def csv_columns_def summary_main_st_def)

lemma card_record_values:
  assumes d: "details = [''zpid'' \<mapsto> Str z, ''url'' \<mapsto> Str u, ''address'' \<mapsto> Str a]"
    and c: "card_record L b n details url = (r, n')"
    and k: "r k = Some v"
  shows "\<exists>s. v = Str s"
proof -
  from card_record_cases [OF c]
  consider "r = details"
    | sp ad where "apartment_details L sp url = Inr ad" "merge_details details ad = Inr r"
    by blast
  then show ?thesis
  proof cases
    case 1
    with k d show ?thesis by (auto split: if_splits)
  next
    case 2
    let ?ad = "ad"
    obtain a' where a': "?ad ''address'' = Some (Str a')"
      using apartment_details_address [OF 2(1)] by blast
    have da: "details ''address'' = Some (Str a)" using d by simp
    define d' where "d' = details(''address'' \<mapsto> (if Str a = Str ''Unknown'' then Str a' else Str a))"
    have r: "r = d' ++ (?ad |` (- {''address''}))"
      unfolding d'_def
      using merge_details_Inr [of details "Str a" ?ad "Str a'"] da a' 2(2) by simp
    from k r have "(?ad |` (- {''address''})) k = Some v \<or> d' k = Some v"
      by (auto simp: map_add_Some_iff)
    then show ?thesis
    proof
      assume "(?ad |` (- {''address''})) k = Some v"
      then have "?ad k = Some v" by (simp add: restrict_map_def split: if_splits)
      with 2(1) show ?thesis by (rule apartment_details_Str)
    next
      assume "d' k = Some v"
      then show ?thesis unfolding d'_def d by (auto split: if_splits)
    qed
  qed
qed

lemma process_cards_Cons_cases:
  assumes "process_cards L b n (c # cards) = Inr (recs, n')"
  obtains (skip) v where "card_url c = Inr v" and "\<not> truthy v"
      and "process_cards L b n cards = Inr (recs, n')"
  | (keep) z u a r n1 recs' where
      "extract_property_details L c
         = Inr [''zpid'' \<mapsto> Str z, ''url'' \<mapsto> Str u, ''address'' \<mapsto> Str a]"
      and "card_url c = Inr (Str u)" and "u \<noteq> []"
      and "card_record L b n [''zpid'' \<mapsto> Str z, ''url'' \<mapsto> Str u, ''address'' \<mapsto> Str a] u = (r, n1)"
      and "process_cards L b n1 cards = Inr (recs', n')" and "recs = r # recs'"
proof -
  from process_cards_Cons_Inr [OF assms] obtain z v a where
    e: "extract_property_details L c
          = Inr [''zpid'' \<mapsto> Str z, ''url'' \<mapsto> v, ''address'' \<mapsto> Str a]"
    and v: "card_url c = Inr v"
    and st: "if truthy v
         then \<exists>u r n1 recs'. v = Str u \<and> u \<noteq> []
                \<and> card_record L b n [''zpid'' \<mapsto> Str z, ''url'' \<mapsto> v, ''address'' \<mapsto> Str a] u = (r, n1)
                \<and> process_cards L b n1 cards = Inr (recs', n') \<and> recs = r # recs'
         else process_cards L b n cards = Inr (recs, n')"
    by (elim exE conjE)
  show thesis
  proof (cases "truthy v")
    case False
    with st have "process_cards L b n cards = Inr (recs, n')" by simp
    with v False show thesis by (rule skip)
  next
    case True
    with st have "\<exists>u r n1 recs'. v = Str u \<and> u \<noteq> []
                \<and> card_record L b n [''zpid'' \<mapsto> Str z, ''url'' \<mapsto> v, ''address'' \<mapsto> Str a] u = (r, n1)
                \<and> process_cards L b n1 cards = Inr (recs', n') \<and> recs = r # recs'"
      by simp
    then obtain u r n1 recs' where "v = Str u" "u \<noteq> []"
      "card_record L b n [''zpid'' \<mapsto> Str z, ''url'' \<mapsto> v, ''address'' \<mapsto> Str a] u = (r, n1)"
      "process_cards L b n1 cards = Inr (recs', n')" "recs = r # recs'"
      by (elim exE conjE)
    with e v show thesis using keep by simp
  qed
qed

lemma record_keys:
  "process_cards L b n cards = Inr (recs, n') \<Longrightarrow> r \<in> set recs \<Longrightarrow>
   (\<exists>z u. r ''zpid'' = Some (Str z) \<and> r ''url'' = Some (Str u) \<and> u \<noteq> []) \<and>
   (dom r = {''zpid'', ''url'', ''address''} \<or> dom r = set csv_columns) \<and>
   (\<forall>k v. r k = Some v \<longrightarrow> (\<exists>s. v = Str s))"
proof (induction cards arbitrary: n recs)
  case Nil
  then show ?case by simp
next
  case (Cons c cards)
  from Cons.prems(1) show ?case
  proof (cases rule: process_cards_Cons_cases)
    case (skip v)
    from Cons.IH [OF skip(3) Cons.prems(2)] show ?thesis .
  next
    case (keep z u a r0 n1 recs')
    from Cons.prems(2) keep(6) have "r = r0 \<or> r \<in> set recs'" by simp
    then show ?thesis
    proof
      assume "r \<in> set recs'"
      with keep(5) show ?thesis by (rule Cons.IH)
    next
      assume r: "r = r0"
      have 1: "r ''zpid'' = Some (Str z)" and 2: "r ''url'' = Some (Str u)"
        and 3: "dom r = {''zpid'', ''url'', ''address''} \<or> dom r = set csv_columns"
        unfolding r using card_record_summary [OF refl keep(4)] by blast+
      have 4: "\<exists>s. v = Str s" if "r k = Some v" for k v
        using card_record_values [OF refl keep(4)] that unfolding r by blast
      have A: "\<exists>z u. r ''zpid'' = Some (Str z) \<and> r ''url'' = Some (Str u) \<and> u \<noteq> []"
        by (intro exI conjI) (rule 1, rule 2, rule keep(3))
      have C: "\<forall>k v. r k = Some v \<longrightarrow> (\<exists>s. v = Str s)"
        using 4 by (intro allI impI)
      from A 3 C show ?thesis by (intro conjI)
    qed
  qed
qed

lemma scrape_zillow_rentals_Inr:
  "scrape_zillow_rentals L b = Inr recs \<Longrightarrow>
   recs = [] \<or> (\<exists>n cards n'. process_cards L b n cards = Inr (recs, n'))"
  by (auto simp: scrape_zillow_rentals_def Let_def split: prod.splits if_splits val.splits sum.splits)

lemma extract_card_without_link:
  "extract_property_details lib_same_listing_twice card_without_link
     = Inr [''zpid'' \<mapsto> Str [], ''url'' \<mapsto> NoneV, ''address'' \<mapsto> Str ''Unknown'']"
  by (simp add: extract_property_details_def card_without_link_def card_url_def
      str_replace.simps address_selectors_def lib_same_listing_twice_def)

lemma process_three_cards:
  "process_cards lib_same_listing_twice backend_details_fail 1
     [card_main_st, card_without_link, card_main_st]
   = Inr ([summary_main_st, summary_main_st], 5)"
  by (simp add: extract_card_main_st extract_card_without_link summary_main_st_def
      card_record_fail)

section \<open>The aggregator: one record per card with a URL\<close>

text \<open>
  Claim C3, as stated: summaries are de-duplicated by detail URL before the details are
  fetched, so that two summaries with the same URL give exactly one record. The loop of
  \<^verbatim>\<open>scrape_zillow.py\<close> (and of the Selenium variant, which is the same text) has no
  de-duplication: every card with a URL gives a record. On the search page whose two
  cards lead to the same URL the run of \<^verbatim>\<open>scrape_zillow.py\<close> writes two records.
\<close>

theorem C3_same_url_two_records:
  "scrape_zillow_rentals lib_same_listing_twice backend_details_fail
     = Inr [summary_main_st, summary_main_st] \<and>
   map card_url (select_cards page_same_listing_twice)
     = [Inr (Str ''https://www.zillow.com/homedetails/7_zpid/''),
        Inr (Str ''https://www.zillow.com/homedetails/7_zpid/'')]"
  by (simp add: run_same_listing_twice page_same_listing_twice_def card_url_def
      card_main_st_def startswith_def)

text \<open>
  Claim C3, amended, for \<^verbatim>\<open>scrape_zillow.py\<close> and its Selenium variant: the aggregator
  does not de-duplicate; it emits exactly one record for every card that has a
  (non-empty) URL, in the order of the cards, so that two cards with the same detail URL
  give two records, and the first-seen order is preserved. (The older variant, whose
  \<^verbatim>\<open>parse_search_page\<close> drops cards with the same tag, classes and \<^verbatim>\<open>data-test\<close> and
  extra links with a URL already seen, is not covered by this statement.)
\<close>

theorem C3_one_record_per_card_with_url:
  "process_cards L b n cards = Inr (recs, n') \<Longrightarrow>
   map (\<lambda>r. r ''url'') recs =
     filter (\<lambda>v. case v of Some u \<Rightarrow> truthy u | None \<Rightarrow> False)
       (map (\<lambda>c. case card_url c of Inr u \<Rightarrow> Some u | Inl e \<Rightarrow> None) cards)"
proof (induction cards arbitrary: n recs)
  case Nil
  then show ?case by simp
next
  case (Cons c cards)
  from Cons.prems show ?case
  proof (cases rule: process_cards_Cons_cases)
    case (skip v)
    from Cons.IH [OF skip(3)] skip(1,2) show ?thesis by simp
  next
    case (keep z u a r n1 recs')
    have "r ''url'' = Some (Str u)" using card_record_summary(2) [OF refl keep(4)] .
    with Cons.IH [OF keep(5)] keep(2,3,6) show ?thesis by (simp add: truthy_def)
  qed
qed

theorem C3_one_record_per_card_with_url_witness:
  "map (\<lambda>r. r ''url'') [summary_main_st, summary_main_st] =
     filter (\<lambda>v. case v of Some u \<Rightarrow> truthy u | None \<Rightarrow> False)
       (map (\<lambda>c. case card_url c of Inr u \<Rightarrow> Some u | Inl e \<Rightarrow> None)
          [card_main_st, card_without_link, card_main_st])"
  using C3_one_record_per_card_with_url [OF process_three_cards] .




section \<open>The card's known address is never replaced\<close>

lemma merge_details_keeps_known_address:
  assumes "details ''address'' = Some (Str s)" and "s \<noteq> ''Unknown''"
    and "merge_details details ad = Inr m"
  shows "m ''address'' = Some (Str s)"
proof -
  have "Str s \<noteq> Str ''Unknown''" using assms(2) by simp
  with assms(1) have "merge_details details ad = Inr (details ++ (ad |` (- {''address''})))"
    by (rule merge_details_known_address)
  with assms(3) have "m = details ++ (ad |` (- {''address''}))" by simp
  then show ?thesis using assms(1) by (simp add: map_add_def restrict_map_def)
qed

text \<open>
  Claim C6: an "unknown" detail value never overwrites a known summary value; for every
  listing whose summary address is known and whose detail page resolves the address to
  \<^verbatim>\<open>'Unknown'\<close>, the merged address is the summary's. The merge returns and keeps the
  card's address; and whatever the fetch of the detail page gives (a page, a failure, an
  exception), the record of a card with a known address has that address.
\<close>

theorem C6_unknown_detail_keeps_card_address:
  assumes "details ''address'' = Some (Str s)" and "s \<noteq> ''Unknown''"
  shows "(ad ''address'' = Some (Str ''Unknown'')
            \<longrightarrow> (\<exists>m. merge_details details ad = Inr m \<and> m ''address'' = Some (Str s))) \<and>
         fst (card_record L b n details url) ''address'' = Some (Str s)"
proof (rule conjI)
  have ne: "Str s \<noteq> Str ''Unknown''" using assms(2) by simp
  show "ad ''address'' = Some (Str ''Unknown'')
          \<longrightarrow> (\<exists>m. merge_details details ad = Inr m \<and> m ''address'' = Some (Str s))"
  proof
    assume "ad ''address'' = Some (Str ''Unknown'')"
    have m: "merge_details details ad = Inr (details ++ (ad |` (- {''address''})))"
      using assms(1) ne by (rule merge_details_known_address)
    from assms m have "(details ++ (ad |` (- {''address''}))) ''address'' = Some (Str s)"
      by (rule merge_details_keeps_known_address)
    with m show "\<exists>m. merge_details details ad = Inr m \<and> m ''address'' = Some (Str s)"
      by (intro exI conjI)
  qed
next
  obtain r n' where c: "card_record L b n details url = (r, n')"
    by (cases "card_record L b n details url")
  from card_record_cases [OF c]
  have "r ''address'' = Some (Str s)"
  proof (elim disjE exE conjE)
    assume "r = details"
    with assms(1) show ?thesis by simp
  next
    fix sp ad assume "merge_details details ad = Inr r"
    with assms show ?thesis by (rule merge_details_keeps_known_address)
  qed
  with c show "fst (card_record L b n details url) ''address'' = Some (Str s)" by simp
qed

theorem C6_unknown_detail_keeps_card_address_witness:
  "(\<exists>m. merge_details summary_main_st detail_unknown = Inr m
        \<and> m ''address'' = Some (Str ''123 Main St'')) \<and>
   fst (card_record lib_same_listing_twice backend_details_fail 1 summary_main_st ''u'')
     ''address'' = Some (Str ''123 Main St'')"
proof -
  have a: "summary_main_st ''address'' = Some (Str ''123 Main St'')"
    by (simp add: summary_main_st_def)
  have b: "''123 Main St'' \<noteq> ''Unknown''" by simp
  have c: "detail_unknown ''address'' = Some (Str ''Unknown'')"
    by (simp add: detail_unknown_def)
  note t = C6_unknown_detail_keeps_card_address
    [of summary_main_st "''123 Main St''" detail_unknown lib_same_listing_twice
        backend_details_fail 1 "''u''", OF a b]
  from t [THEN conjunct1] c
  have 1: "\<exists>m. merge_details summary_main_st detail_unknown = Inr m
        \<and> m ''address'' = Some (Str ''123 Main St'')" by (rule mp)
  from 1 t [THEN conjunct2] show ?thesis by (rule conjI)
qed

section \<open>The fetch client: exhausted attempts\<close>

text \<open>
  Claim C7, as stated: a call that exhausts all attempts returns a failure outcome that
  contains the number of attempts made. The function returns the bare value \<^verbatim>\<open>None\<close>:
  against the backend that always fails, one attempt and two attempts return the same
  value (the count is only printed).
\<close>

theorem C7_failure_value_has_no_count:
  "nimble_request backend_always_fails ''u'' 0 1 = (NoneV, 1) \<and>
   nimble_request backend_always_fails ''u'' 0 2 = (NoneV, 2)"
  by (simp add: backend_always_fails_def attempt_Transport_error numeral_2_eq_2)

lemma nimble_request_exhausted:
  "(\<forall>i<retries. isl (attempt (b (n + i) url))) \<Longrightarrow>
   nimble_request b url n retries = (NoneV, n + retries)"
proof (induction retries arbitrary: n)
  case 0
  then show ?case by simp
next
  case (Suc k)
  from Suc.prems have "isl (attempt (b (n + 0) url))" by blast
  then obtain e where e: "attempt (b n url) = Inl e" by (cases "attempt (b n url)") auto
  have "\<forall>i<k. isl (attempt (b (Suc n + i) url))"
    using Suc.prems by (metis Suc_less_eq add_Suc_shift)
  then have "nimble_request b url (Suc n) k = (NoneV, Suc n + k)" by (rule Suc.IH)
  with e show ?case by simp
qed

lemma card_record_fetch_exhausted:
  assumes "\<forall>i<2. isl (attempt (b (n + i) u))"
  shows "card_record L b n details u = (details, n + 2)"
proof -
  have "nimble_request b u n 2 = (NoneV, n + 2)"
    using assms by (rule nimble_request_exhausted)
  then show ?thesis
    by (simp add: card_record_def extract_apartment_details_def truthy_def)
qed

text \<open>
  Claim C7, amended: a call in which every attempt raises returns \<^verbatim>\<open>None\<close>, a failure
  value without an attempt count, after exactly \<^verbatim>\<open>retries\<close> network calls, and raises
  nothing; when the two attempts for a card's detail page fail, the loop keeps the card's
  summary as its record and goes on with the remaining cards.
\<close>

theorem C7_exhausted_fetch_returns_None_and_run_continues:
  "((\<forall>i<retries. isl (attempt (b (n + i) url)))
      \<longrightarrow> nimble_request b url n retries = (NoneV, n + retries)) \<and>
   (extract_property_details L c = Inr details \<and> details ''url'' = Some (Str u) \<and> u \<noteq> []
      \<and> (\<forall>i<2. isl (attempt (b (n + i) u)))
      \<longrightarrow> process_cards L b n (c # cards) =
            (case process_cards L b (n + 2) cards of
               Inl e \<Rightarrow> Inl e
             | Inr (recs, n') \<Rightarrow> Inr (details # recs, n')))"
proof (intro conjI impI)
  assume "\<forall>i<retries. isl (attempt (b (n + i) url))"
  then show "nimble_request b url n retries = (NoneV, n + retries)"
    by (rule nimble_request_exhausted)
next
  assume a: "extract_property_details L c = Inr details \<and> details ''url'' = Some (Str u)
      \<and> u \<noteq> [] \<and> (\<forall>i<2. isl (attempt (b (n + i) u)))"
  then have "card_record L b n details u = (details, n + 2)"
    by (intro card_record_fetch_exhausted) simp
  with a show "process_cards L b n (c # cards) =
            (case process_cards L b (n + 2) cards of
               Inl e \<Rightarrow> Inl e
             | Inr (recs, n') \<Rightarrow> Inr (details # recs, n'))"
    by simp
qed

theorem C7_exhausted_fetch_returns_None_and_run_continues_witness:
  "nimble_request backend_always_fails ''u'' 0 2 = (NoneV, 0 + 2) \<and>
   process_cards lib_same_listing_twice backend_details_fail 1 [card_main_st, card_main_st]
     = Inr ([summary_main_st, summary_main_st], 5)"
proof -
  note t = C7_exhausted_fetch_returns_None_and_run_continues
    [of 2 backend_always_fails 0 "''u''" lib_same_listing_twice card_main_st summary_main_st
        "''https://www.zillow.com/homedetails/7_zpid/''" "[card_main_st]"]
  have f: "\<forall>i<2. isl (attempt (backend_always_fails (0 + i) ''u''))"
    by (simp add: backend_always_fails_def attempt_Transport_error)
  from t [THEN conjunct1] f
  have 1: "nimble_request backend_always_fails ''u'' 0 2 = (NoneV, 0 + 2)" by (rule mp)
  note t' = C7_exhausted_fetch_returns_None_and_run_continues
    [of 2 backend_details_fail 1 "''https://www.zillow.com/homedetails/7_zpid/''"
        lib_same_listing_twice card_main_st summary_main_st
        "''https://www.zillow.com/homedetails/7_zpid/''" "[card_main_st]"]
  have g: "extract_property_details lib_same_listing_twice card_main_st = Inr summary_main_st
      \<and> summary_main_st ''url'' = Some (Str ''https://www.zillow.com/homedetails/7_zpid/'')
      \<and> ''https://www.zillow.com/homedetails/7_zpid/'' \<noteq> []
      \<and> (\<forall>i<2. isl (attempt (backend_details_fail (1 + i)
                    ''https://www.zillow.com/homedetails/7_zpid/'')))"
    by (simp add: extract_card_main_st summary_main_st_def backend_details_fail_def
        attempt_Transport_error)
  from t' [THEN conjunct2] g
  have "process_cards lib_same_listing_twice backend_details_fail 1 (card_main_st # [card_main_st])
     = (case process_cards lib_same_listing_twice backend_details_fail (1 + 2) [card_main_st] of
               Inl e \<Rightarrow> Inl e
             | Inr (recs, n') \<Rightarrow> Inr (summary_main_st # recs, n'))" by (rule mp)
  moreover have "process_cards lib_same_listing_twice backend_details_fail (1 + 2) [card_main_st]
     = Inr ([summary_main_st], 5)"
    by (simp add: extract_card_main_st summary_main_st_def card_record_fail)
  ultimately have 2: "process_cards lib_same_listing_twice backend_details_fail 1
      [card_main_st, card_main_st] = Inr ([summary_main_st, summary_main_st], 5)"
    by simp
  from 1 2 show ?thesis by (rule conjI)
qed

section \<open>The columns of the output\<close>

lemma writerow_length: "length (writerow r) = length csv_columns"
  by (simp add: writerow_def)

lemma writerow_missing:
  "i < length csv_columns \<Longrightarrow> r (csv_columns ! i) = None \<Longrightarrow> writerow r ! i = Str []"
  by (simp add: writerow_def)

lemma card_record_fetched:
  assumes "extract_apartment_details L b n u = (Inr (Some ad), n1)"
  shows "dom (fst (card_record L b n [''zpid'' \<mapsto> z, ''url'' \<mapsto> v, ''address'' \<mapsto> Str a] u))
           = set csv_columns"
proof -
  let ?d = "[''zpid'' \<mapsto> z, ''url'' \<mapsto> v, ''address'' \<mapsto> Str a]"
  from extract_apartment_details_cases [OF assms]
  obtain h where ad: "apartment_details L (BeautifulSoup L h) u = Inr ad" by auto
  obtain a' where a': "ad ''address'' = Some (Str a')"
    using apartment_details_address [OF ad] by blast
  have da: "?d ''address'' = Some (Str a)" by simp
  define m where "m = (?d(''address'' \<mapsto> (if Str a = Str ''Unknown'' then Str a' else Str a)))
                ++ (ad |` (- {''address''}))"
  have mm: "merge_details ?d ad = Inr m"
    unfolding m_def using merge_details_Inr [of ?d "Str a" ad "Str a'"] da a' by simp
  have ne: "ad \<noteq> Map.empty" using ad by (rule apartment_details_nonempty)
  have "card_record L b n ?d u = (m, n1)"
    using assms ne mm by (simp add: card_record_def)
  moreover have "dom m = set csv_columns"
    using ad mm by (rule merge_summary(4) [OF refl])
  ultimately show ?thesis by simp
qed

lemma card_record_not_extracted:
  assumes "extract_apartment_details L b n u = (x, n1)" and "x = Inr None \<or> x = Inl e"
  shows "card_record L b n details u = (details, n1)"
  using assms by (auto simp: card_record_def)

text \<open>
  Claim C4, as stated: every record written has every declared column, with a parsed
  value or the sentinel, never null, empty or absent, also when the detail fetch failed.
  A record whose detail fetch failed has only the keys \<^verbatim>\<open>zpid\<close>, \<^verbatim>\<open>url\<close> and
  \<^verbatim>\<open>address\<close>; the other nine columns are absent from it, and the writer fills their
  cells with the empty string.
\<close>

theorem C4_summary_only_row_has_empty_cells:
  "scrape_zillow_rentals lib_same_listing_twice backend_details_fail
     = Inr [summary_main_st, summary_main_st] \<and>
   summary_main_st ''price'' = None \<and>
   writerow summary_main_st =
     [Str ''7'', Str ''123 Main St'', Str ''https://www.zillow.com/homedetails/7_zpid/'',
      Str [], Str [], Str [], Str [], Str [], Str [], Str [], Str [], Str []]"
  by (simp add: run_same_listing_twice writerow_summary_main_st) (simp add: summary_main_st_def)

text \<open>
  Claim C4, amended: every record written has the columns \<^verbatim>\<open>zpid\<close>, \<^verbatim>\<open>url\<close> and
  \<^verbatim>\<open>address\<close>, and every value it has is a string; it has either all twelve columns or
  only those three; every row has twelve cells, and the cell of a column the record lacks
  is the empty string. A record whose detail fetch failed, or whose detail extraction
  raised an exception, is the summary alone; a record whose detail page was fetched and
  extracted has all twelve columns.
\<close>

theorem C4_columns_of_records:
  "(scrape_zillow_rentals L b = Inr recs \<longrightarrow>
      (\<forall>r\<in>set recs.
          (dom r = {''zpid'', ''url'', ''address''} \<or> dom r = set csv_columns)
          \<and> (\<forall>k v. r k = Some v \<longrightarrow> (\<exists>s. v = Str s))
          \<and> length (writerow r) = length csv_columns
          \<and> (\<forall>i<length csv_columns. r (csv_columns ! i) = None \<longrightarrow> writerow r ! i = Str []))) \<and>
   (extract_apartment_details L b n u = (Inr None, n1)
      \<longrightarrow> card_record L b n details u = (details, n1)) \<and>
   (extract_apartment_details L b n u = (Inl e, n1)
      \<longrightarrow> card_record L b n details u = (details, n1)) \<and>
   (extract_apartment_details L b n u = (Inr (Some ad), n1)
      \<longrightarrow> dom (fst (card_record L b n [''zpid'' \<mapsto> z, ''url'' \<mapsto> v, ''address'' \<mapsto> Str a] u))
            = set csv_columns)"
proof (intro conjI impI ballI allI)
  fix r assume s: "scrape_zillow_rentals L b = Inr recs" and r: "r \<in> set recs"
  from r have "recs \<noteq> []" by auto
  with scrape_zillow_rentals_Inr [OF s] obtain n0 cards0 n' where
    "process_cards L b n0 cards0 = Inr (recs, n')" by (elim disjE exE) simp_all
  note k = record_keys [OF this r]
  from k show "dom r = {''zpid'', ''url'', ''address''} \<or> dom r = set csv_columns"
    by (elim conjE)
  fix k' v' assume "r k' = Some v'"
  with k show "\<exists>s. v' = Str s" by (elim conjE allE impE)
next
  fix r :: dict show "length (writerow r) = length csv_columns" by (rule writerow_length)
next
  fix r :: dict and i assume "i < length csv_columns" and "r (csv_columns ! i) = None"
  then show "writerow r ! i = Str []" by (rule writerow_missing)
next
  assume "extract_apartment_details L b n u = (Inr None, n1)"
  then show "card_record L b n details u = (details, n1)"
    by (rule card_record_not_extracted) simp
next
  assume "extract_apartment_details L b n u = (Inl e, n1)"
  then show "card_record L b n details u = (details, n1)"
    by (rule card_record_not_extracted) simp
next
  assume "extract_apartment_details L b n u = (Inr (Some ad), n1)"
  then show "dom (fst (card_record L b n [''zpid'' \<mapsto> z, ''url'' \<mapsto> v, ''address'' \<mapsto> Str a] u))
            = set csv_columns" by (rule card_record_fetched)
qed

lemma fetch_fails_example:
  "extract_apartment_details lib_same_listing_twice backend_details_fail 1 ''u'' = (Inr None, 3)"
  by (simp add: extract_apartment_details_def nimble_request_details_fail truthy_def)

lemma nimble_request_always_succeeds:
  "nimble_request backend_always_succeeds url n 2 = (Str ''<html>'', Suc n)"
  by (simp add: numeral_2_eq_2 backend_always_succeeds_def attempt_success_reply)

lemma BeautifulSoup_example: "BeautifulSoup lib_same_listing_twice h = page_same_listing_twice"
  by (simp add: lib_same_listing_twice_def)

lemma detail_address_bad_url:
  "detail_address lib_same_listing_twice page_same_listing_twice ''http://[x'' = Inl ValueError"
  by (simp add: detail_address_def lib_same_listing_twice_def page_same_listing_twice_def)

lemma detail_address_good_url:
  "detail_address lib_same_listing_twice page_same_listing_twice
     ''https://www.zillow.com/homedetails/7_zpid/'' = Inr ''Unknown''"
  by (simp add: detail_address_def lib_same_listing_twice_def page_same_listing_twice_def)

lemma extraction_raises_example:
  "extract_apartment_details lib_same_listing_twice backend_always_succeeds 1 ''http://[x''
     = (Inl ValueError, 2)"
proof -
  have "apartment_details lib_same_listing_twice page_same_listing_twice ''http://[x''
          = Inl ValueError"
    by (simp add: apartment_details_def Let_def case_prod_beta detail_address_bad_url)
  then show ?thesis
    by (simp add: extract_apartment_details_def nimble_request_always_succeeds truthy_def
        BeautifulSoup_example)
qed

lemma apartment_details_returns:
  assumes "detail_address L sp url = Inr a"
  shows "\<exists>ad. apartment_details L sp url = Inr ad"
  unfolding apartment_details_def Let_def case_prod_beta assms sum.case
  by (rule exI) (rule refl)

lemma extraction_returns_example:
  "\<exists>ad. extract_apartment_details lib_same_listing_twice backend_always_succeeds 1
           ''https://www.zillow.com/homedetails/7_zpid/'' = (Inr (Some ad), 2)"
proof -
  have "\<exists>ad. apartment_details lib_same_listing_twice page_same_listing_twice
          ''https://www.zillow.com/homedetails/7_zpid/'' = Inr ad"
    using detail_address_good_url by (rule apartment_details_returns)
  then obtain ad where "apartment_details lib_same_listing_twice page_same_listing_twice
          ''https://www.zillow.com/homedetails/7_zpid/'' = Inr ad" by (elim exE)
  then have "extract_apartment_details lib_same_listing_twice backend_always_succeeds 1
           ''https://www.zillow.com/homedetails/7_zpid/'' = (Inr (Some ad), 2)"
    by (simp add: extract_apartment_details_def nimble_request_always_succeeds truthy_def
        BeautifulSoup_example)
  then show ?thesis by (intro exI)
qed

theorem C4_columns_of_records_witness:
  "(dom summary_main_st = {''zpid'', ''url'', ''address''} \<or> dom summary_main_st = set csv_columns) \<and>
   length (writerow summary_main_st) = length csv_columns \<and>
   writerow summary_main_st ! 3 = Str [] \<and>
   card_record lib_same_listing_twice backend_details_fail 1 summary_main_st ''u''
     = (summary_main_st, 3) \<and>
   card_record lib_same_listing_twice backend_always_succeeds 1 summary_bad_url ''http://[x''
     = (summary_bad_url, 2) \<and>
   dom (fst (card_record lib_same_listing_twice backend_always_succeeds 1
               [''zpid'' \<mapsto> Str ''7'',
                ''url'' \<mapsto> Str ''https://www.zillow.com/homedetails/7_zpid/'',
                ''address'' \<mapsto> Str ''Unknown'']
               ''https://www.zillow.com/homedetails/7_zpid/''))
     = set csv_columns"
proof -
  note t = C4_columns_of_records
    [where L = lib_same_listing_twice and b = backend_details_fail
       and recs = "[summary_main_st, summary_main_st]" and n = 1 and u = "''u''" and ?n1.0 = 3
       and details = summary_main_st]
  have m: "summary_main_st \<in> set [summary_main_st, summary_main_st]" by simp
  note p = t [THEN conjunct1, THEN mp, OF run_same_listing_twice, THEN bspec, OF m]
  from p have 1: "dom summary_main_st = {''zpid'', ''url'', ''address''}
      \<or> dom summary_main_st = set csv_columns" by (rule conjunct1)
  from p have 2: "length (writerow summary_main_st) = length csv_columns"
    by (elim conjE)
  from p have q: "\<forall>i<length csv_columns. summary_main_st (csv_columns ! i) = None
      \<longrightarrow> writerow summary_main_st ! i = Str []" by (elim conjE)
  have "3 < length csv_columns" "summary_main_st (csv_columns ! 3) = None"
    by (simp_all add: csv_columns_def summary_main_st_def)
  with q have 3: "writerow summary_main_st ! 3 = Str []" by blast
  from t [THEN conjunct2, THEN conjunct1] fetch_fails_example
  have 4: "card_record lib_same_listing_twice backend_details_fail 1 summary_main_st ''u''
     = (summary_main_st, 3)" by (rule mp)
  note t' = C4_columns_of_records
    [where L = lib_same_listing_twice and b = backend_always_succeeds and n = 1
       and u = "''http://[x''" and ?n1.0 = 2 and details = summary_bad_url and e = ValueError]
  from t' [THEN conjunct2, THEN conjunct2, THEN conjunct1] extraction_raises_example
  have 5: "card_record lib_same_listing_twice backend_always_succeeds 1 summary_bad_url
      ''http://[x'' = (summary_bad_url, 2)" by (rule mp)
  from extraction_returns_example obtain ad where
    g: "extract_apartment_details lib_same_listing_twice backend_always_succeeds 1
           ''https://www.zillow.com/homedetails/7_zpid/'' = (Inr (Some ad), 2)" by (elim exE)
  note t'' = C4_columns_of_records
    [where L = lib_same_listing_twice and b = backend_always_succeeds and n = 1
       and u = "''https://www.zillow.com/homedetails/7_zpid/''" and ?n1.0 = 2 and ad = ad
       and z = "Str ''7''" and v = "Str ''https://www.zillow.com/homedetails/7_zpid/''"
       and a = "''Unknown''"]
  from t'' [THEN conjunct2, THEN conjunct2, THEN conjunct2] g
  have 6: "dom (fst (card_record lib_same_listing_twice backend_always_succeeds 1
               [''zpid'' \<mapsto> Str ''7'',
                ''url'' \<mapsto> Str ''https://www.zillow.com/homedetails/7_zpid/'',
                ''address'' \<mapsto> Str ''Unknown'']
               ''https://www.zillow.com/homedetails/7_zpid/''))
     = set csv_columns" by (rule mp)
  from 1 2 3 4 5 6 show ?thesis by (intro conjI)
qed

section \<open>The older variant: a payload that fails to parse\<close>

lemma choose_script_bad_payload:
  \<open>choose_script page_bad_payload = Some (Some ''{"apiCache": '')\<close>
  by (simp add: choose_script_def page_bad_payload_def script_selectors_def)

lemma parse_house_page_decode_error:
  assumes "choose_script (BeautifulSoup_old L h) = Some (Some str)"
    and "json_loads L (clean_script L str) = None"
  shows "parse_house_page L h = Map.empty"
  using assms by (simp add: parse_house_page_def parse_payload_def)

lemma parse_house_page_without_script:
  "choose_script (BeautifulSoup_old L h) = None \<Longrightarrow>
   parse_house_page L h = extract_basic_info_from_html (BeautifulSoup_old L h)"
  by (simp add: parse_house_page_def)

text \<open>
  Claim C8, as stated: when the embedded payload is present but fails to parse, the error
  is caught and extraction for that page downgrades to the selector strategies, returning
  their result rather than an empty result. The handler of \<^verbatim>\<open>parse_house_page\<close> returns
  the empty dictionary: on the page whose payload is cut off and whose HTML shows the price
  "$1,200", the result is empty, although \<^verbatim>\<open>extract_basic_info_from_html\<close> finds the
  price on it.
\<close>

theorem C8_decode_error_returns_empty:
  "parse_house_page lib_bad_payload ''<html>'' = Map.empty \<and>
   extract_basic_info_from_html page_bad_payload ''price'' = Some (Str ''$1,200'')"
proof -
  have "parse_house_page lib_bad_payload ''<html>'' = Map.empty"
    by (rule parse_house_page_decode_error [where str = \<open>''{"apiCache": ''\<close>])
      (simp_all add: lib_bad_payload_def choose_script_bad_payload)
  moreover have "extract_basic_info_from_html page_bad_payload ''price'' = Some (Str ''$1,200'')"
    by (simp add: extract_basic_info_from_html_def page_bad_payload_def find_either_def
        set_if_found_def)
  ultimately show ?thesis by (rule conjI)
qed

text \<open>
  Claim C8, amended: when the embedded payload is present but fails to parse, the error is
  caught locally and \<^verbatim>\<open>parse_house_page\<close> returns the empty result for that page (the
  selectors on the page's HTML are not tried); the failure aborts nothing: the loop records
  the card-level data of that listing alone, marked "card_data_only", and goes on with
  the subsequent listings.
\<close>

theorem C8_decode_error_falls_back_to_card_data:
  "choose_script (BeautifulSoup_old L h) = Some (Some str) \<and> json_loads L (clean_script L str) = None
     \<longrightarrow> parse_house_page L h = Map.empty \<and>
         (card_data ''detail_url'' = Some (Str href) \<and> href \<noteq> [] \<and> h \<noteq> []
            \<and> nimble_request_old b (if use_clicks then search_url else href) n 3 = Inr (Str h, n1)
          \<longrightarrow> process_individual_cards_loop L b use_clicks search_url n i (card_data # rest) =
                (case process_individual_cards_loop L b use_clicks search_url n1 (i + 1) rest of
                   Inl e \<Rightarrow> Inl e
                 | Inr (all_data, n2) \<Rightarrow> Inr (fallback_data i (Str href) card_data # all_data, n2)))"
proof (intro impI conjI)
  assume a: "choose_script (BeautifulSoup_old L h) = Some (Some str)
     \<and> json_loads L (clean_script L str) = None"
  then show e: "parse_house_page L h = Map.empty"
    by (intro parse_house_page_decode_error [of L h str]) simp_all
  assume c: "card_data ''detail_url'' = Some (Str href) \<and> href \<noteq> [] \<and> h \<noteq> []
            \<and> nimble_request_old b (if use_clicks then search_url else href) n 3 = Inr (Str h, n1)"
  then show "process_individual_cards_loop L b use_clicks search_url n i (card_data # rest) =
                (case process_individual_cards_loop L b use_clicks search_url n1 (i + 1) rest of
                   Inl e \<Rightarrow> Inl e
                 | Inr (all_data, n2) \<Rightarrow> Inr (fallback_data i (Str href) card_data # all_data, n2))"
    using e by (simp add: Let_def)
qed

theorem C8_decode_error_falls_back_to_card_data_witness:
  "parse_house_page lib_bad_payload ''<html>'' = Map.empty \<and>
   process_individual_cards_loop lib_bad_payload backend_always_succeeds False ''search'' 0 1
       [card_entry]
     = Inr ([fallback_data 1 (Str ''https://www.zillow.com/homedetails/7_zpid/'') card_entry], 1)"
proof -
  note t = C8_decode_error_falls_back_to_card_data
    [of lib_bad_payload "''<html>''" \<open>''{"apiCache": ''\<close> card_entry
        "''https://www.zillow.com/homedetails/7_zpid/''" backend_always_succeeds False
        "''search''" 0 1 1 "[]"]
  have a: \<open>choose_script (BeautifulSoup_old lib_bad_payload ''<html>'') = Some (Some ''{"apiCache": '')
     \<and> json_loads lib_bad_payload (clean_script lib_bad_payload ''{"apiCache": '') = None\<close>
    by (simp add: lib_bad_payload_def choose_script_bad_payload)
  note p = t [THEN mp, OF a]
  have c: "card_entry ''detail_url'' = Some (Str ''https://www.zillow.com/homedetails/7_zpid/'')
      \<and> ''https://www.zillow.com/homedetails/7_zpid/'' \<noteq> [] \<and> ''<html>'' \<noteq> []
      \<and> nimble_request_old backend_always_succeeds
            (if False then ''search'' else ''https://www.zillow.com/homedetails/7_zpid/'') 0 3
          = Inr (Str ''<html>'', 1)"
    by (simp add: card_entry_def numeral_3_eq_3 backend_always_succeeds_def attempt_success_reply)
  from p [THEN conjunct2, THEN mp, OF c]
  have "process_individual_cards_loop lib_bad_payload backend_always_succeeds False ''search'' 0 1
       [card_entry]
     = Inr ([fallback_data 1 (Str ''https://www.zillow.com/homedetails/7_zpid/'') card_entry], 1)"
    by simp
  with p [THEN conjunct1] show ?thesis by (rule conjI)
qed

end
